theory Spec2Isabelle
  imports Main
begin

section \<open>Shared vocabulary: errors, diagnostics, the scripted AWS endpoint\<close>

text \<open>
  Go's \<open>error\<close> values. An error coming back from an AWS call is an \<open>aws_error\<close>: either the
  typed \<open>*awstypes.ResourceNotFoundException\<close>, any other API error with its error code and
  message, or an error that carries no API error code at all (a transport failure).
  A nil \<open>error\<close> is \<open>None\<close>.
\<close>

datatype aws_error =
    ResourceNotFoundException string
  | GenericAPIError string string
  | TransportError string

datatype error =
    AWSError aws_error
  | TimeoutError "aws_error option"
  | NotFoundError
  | EmptyResultError
  | EmptyOutput
  | IDFormatError string
  | Wrapped string error

fun ErrorCode :: "aws_error \<Rightarrow> string option" where
  "ErrorCode (ResourceNotFoundException m) = Some ''ResourceNotFoundException''"
| "ErrorCode (GenericAPIError c m) = Some c"
| "ErrorCode (TransportError m) = None"

fun ErrorMessage :: "aws_error \<Rightarrow> string" where
  "ErrorMessage (ResourceNotFoundException m) = m"
| "ErrorMessage (GenericAPIError c m) = m"
| "ErrorMessage (TransportError m) = m"

text \<open>\<open>strings.Contains\<close>: the second string occurs as a contiguous run in the first.\<close>

fun HasPrefix :: "string \<Rightarrow> string \<Rightarrow> bool" where
  "HasPrefix s [] = True"
| "HasPrefix [] (p # ps) = False"
| "HasPrefix (c # cs) (p # ps) = (c = p \<and> HasPrefix cs ps)"

fun Contains :: "string \<Rightarrow> string \<Rightarrow> bool" where
  "Contains [] sub = (sub = [])"
| "Contains (c # cs) sub = (HasPrefix (c # cs) sub \<or> Contains cs sub)"

text \<open>
  Modelled from the spec: the error predicates the handlers use for the retryable-versus-fatal
  classification are not among the files at hand (\<open>tfawserr\<close>, \<open>errs\<close>, \<open>tfresource\<close>). Each
  is written out by what its name and its call sites say: \<open>ErrCodeEquals\<close> compares the API
  error code, \<open>ErrMessageContains\<close> adds a substring test on the message,
  \<open>IsA_ResourceNotFoundException\<close> is the type test
  \<open>errs.IsA[*awstypes.ResourceNotFoundException]\<close>, and \<open>TimedOut\<close> holds of a
  \<open>retry.TimeoutError\<close> without a last error.
\<close>

fun ErrCodeEquals :: "error option \<Rightarrow> string \<Rightarrow> bool" where
  "ErrCodeEquals (Some (AWSError e)) c = (ErrorCode e = Some c)"
| "ErrCodeEquals _ c = False"

definition ErrMessageContains :: "error option \<Rightarrow> string \<Rightarrow> string \<Rightarrow> bool" where
  "ErrMessageContains err c m =
     (case err of
        Some (AWSError e) \<Rightarrow> ErrorCode e = Some c \<and> Contains (ErrorMessage e) m
      | _ \<Rightarrow> False)"

fun IsA_ResourceNotFoundException :: "error option \<Rightarrow> bool" where
  "IsA_ResourceNotFoundException (Some (AWSError (ResourceNotFoundException m))) = True"
| "IsA_ResourceNotFoundException _ = False"

fun TimedOut :: "error option \<Rightarrow> bool" where
  "TimedOut (Some (TimeoutError None)) = True"
| "TimedOut _ = False"

text \<open>
  Diagnostics: \<open>sdkdiag.AppendErrorf diags format args err\<close> appends one error diagnostic; the
  model keeps the format string, the string arguments and the error it reports.
\<close>

datatype diag = ErrorDiag string "string list" error

definition AppendErrorf :: "diag list \<Rightarrow> string \<Rightarrow> string list \<Rightarrow> error \<Rightarrow> diag list" where
  "AppendErrorf diags fmt args err = diags @ [ErrorDiag fmt args err]"

definition aws_ToString :: "string option \<Rightarrow> string" where
  "aws_ToString p = (case p of None \<Rightarrow> [] | Some s \<Rightarrow> s)"

text \<open>
  The AWS endpoint is a script: the \<open>n\<close>-th call made through the connection receives the
  \<open>n\<close>-th response of the script together with the time the call takes (in milliseconds).
  The world records the clock and every call made: when it started, the request sent and
  the response received.
\<close>

record ('q, 'r) world =
  clock :: nat
  script :: "nat \<Rightarrow> 'r \<times> nat"
  calls :: "(nat \<times> 'q \<times> 'r) list"

definition aws_call :: "'q \<Rightarrow> ('q, 'r) world \<Rightarrow> 'r \<times> ('q, 'r) world" where
  "aws_call q w =
     (let r = script w (length (calls w))
      in (fst r, w\<lparr>clock := clock w + snd r, calls := calls w @ [(clock w, q, fst r)]\<rparr>))"

definition requests :: "('q, 'r) world \<Rightarrow> 'q list" where
  "requests w = map (\<lambda>c. fst (snd c)) (calls w)"

section \<open>\<open>retry.RetryContext\<close>\<close>

text \<open>
  \<open>time.Duration\<close> values, in milliseconds.
\<close>

definition time_Millisecond :: nat where "time_Millisecond = 1"
definition time_Minute :: nat where "time_Minute = 60000"

record RetryError =
  Err :: error
  Retryable :: bool

definition RetryableError :: "error \<Rightarrow> RetryError" where
  "RetryableError e = \<lparr>Err = e, Retryable = True\<rparr>"

definition NonRetryableError :: "error \<Rightarrow> RetryError" where
  "NonRetryableError e = \<lparr>Err = e, Retryable = False\<rparr>"

text \<open>
  Modelled from the spec: \<open>retry.RetryContext\<close> is not among the files at hand; the spec
  describes it as bounded polling with timeout and retryable-versus-fatal error
  classification. The model calls \<open>f\<close> while time remains: success and a fatal error end
  the loop with that result, a retryable error is followed by a pause of \<open>retryInterval\<close>
  and another attempt. The time an attempt uses is read off the world's clock. What the
  loop hands back once the time is used up is said neither by the spec nor by the files at
  hand, so it is a parameter: \<open>expired\<close> maps the last retryable error (none if no attempt
  was made) to the error returned. Two choices have a name: \<open>timeoutError\<close> always hands
  back a \<open>TimeoutError\<close> without a last error, \<open>lastErrorOrTimeout\<close> hands back the last
  retryable error when there is one.
\<close>

definition retryInterval :: nat where "retryInterval = 500 * time_Millisecond"

definition sleep :: "nat \<Rightarrow> ('q, 'r) world \<Rightarrow> ('q, 'r) world" where
  "sleep t w = w\<lparr>clock := clock w + t\<rparr>"

function retry_loop ::
  "(error option \<Rightarrow> error) \<Rightarrow> nat \<Rightarrow> (('q, 'r) world \<Rightarrow> RetryError option \<times> ('q, 'r) world)
     \<Rightarrow> error option \<Rightarrow> ('q, 'r) world \<Rightarrow> error option \<times> ('q, 'r) world" where
  "retry_loop expired remaining f lastErr w =
     (if remaining = 0 then (Some (expired lastErr), w)
      else (case f w of
              (None, w') \<Rightarrow> (None, w')
            | (Some re, w') \<Rightarrow>
                if Retryable re
                then retry_loop expired (remaining - (retryInterval + (clock w' - clock w))) f
                       (Some (Err re)) (sleep retryInterval w')
                else (Some (Err re), w')))"
  by pat_completeness auto
termination
  by (relation "measure (\<lambda>(expired, remaining, f, lastErr, w). remaining)")
     (auto simp: retryInterval_def time_Millisecond_def)

definition RetryContext ::
  "(error option \<Rightarrow> error) \<Rightarrow> nat \<Rightarrow> (('q, 'r) world \<Rightarrow> RetryError option \<times> ('q, 'r) world)
     \<Rightarrow> ('q, 'r) world \<Rightarrow> error option \<times> ('q, 'r) world" where
  "RetryContext expired timeout f w = retry_loop expired timeout f None w"

definition timeoutError :: "error option \<Rightarrow> error" where
  "timeoutError lastErr = TimeoutError None"

definition lastErrorOrTimeout :: "error option \<Rightarrow> error" where
  "lastErrorOrTimeout lastErr = (case lastErr of None \<Rightarrow> TimeoutError None | Some e \<Rightarrow> e)"

section \<open>Macie: \<open>aws_macie2_organization_admin_account\<close>\<close>

text \<open>
  \<open>schema.Resource\<close>: the handlers a resource registers. A handler field left out of the
  composite literal is nil.
\<close>

datatype handler =
    resourceOrganizationAdminAccountCreate_h
  | resourceOrganizationAdminAccountRead_h
  | resourceOrganizationAdminAccountDelete_h
  | resourceWorkspaceSamlConfigurationUpsert_h
  | resourceWorkspaceSamlConfigurationRead_h
  | resourceWorkspaceSamlConfigurationDelete_h
  | resourceSlot_Create_h
  | resourceSlot_Read_h
  | resourceSlot_Update_h
  | resourceSlot_Delete_h

record Resource =
  Create :: "handler option"
  Read :: "handler option"
  Update :: "handler option"
  Delete :: "handler option"

definition ResourceOrganizationAdminAccount :: Resource where
  "ResourceOrganizationAdminAccount =
     \<lparr>Create = Some resourceOrganizationAdminAccountCreate_h,
      Read = Some resourceOrganizationAdminAccountRead_h,
      Update = None,
      Delete = Some resourceOrganizationAdminAccountDelete_h\<rparr>"

text \<open>The requests of the Macie client and what comes back.\<close>

record EnableOrganizationAdminAccountInput =
  AdminAccountId :: string
  ClientToken :: string

datatype macie_request =
    EnableOrganizationAdminAccount EnableOrganizationAdminAccountInput
  | ListOrganizationAdminAccounts
  | DisableOrganizationAdminAccount string

record AdminAccount =
  AccountId :: "string option"

text \<open>
  A response carries the error of the call (nil on success) and, for the list operation,
  the pages fetched; a page and an account in a page may be nil pointers.
\<close>

record macie_response =
  m_err :: "aws_error option"
  m_pages :: "AdminAccount option list option list"

type_synonym macie_world = "(macie_request, macie_response) world"

definition lift_err :: "aws_error option \<Rightarrow> error option" where
  "lift_err e = map_option AWSError e"

definition conn_EnableOrganizationAdminAccount ::
  "EnableOrganizationAdminAccountInput \<Rightarrow> macie_world \<Rightarrow> error option \<times> macie_world" where
  "conn_EnableOrganizationAdminAccount input w =
     (case aws_call (EnableOrganizationAdminAccount input) w of
        (r, w') \<Rightarrow> (lift_err (m_err r), w'))"

definition conn_DisableOrganizationAdminAccount ::
  "string \<Rightarrow> macie_world \<Rightarrow> error option \<times> macie_world" where
  "conn_DisableOrganizationAdminAccount adminAccountId w =
     (case aws_call (DisableOrganizationAdminAccount adminAccountId) w of
        (r, w') \<Rightarrow> (lift_err (m_err r), w'))"

text \<open>
  \<open>schema.ResourceData\<close> of this resource: the ID, the one attribute, and whether the
  resource is being created.
\<close>

record ResourceData =
  Id_m :: string
  admin_account_id :: string
  IsNewResource_m :: bool

definition SetId :: "string \<Rightarrow> ResourceData \<Rightarrow> ResourceData" where
  "SetId v d = d\<lparr>Id_m := v\<rparr>"

text \<open>
  \<open>ListOrganizationAdminAccountsPages\<close> hands the pages to the callback one by one, telling
  it whether the page is the last, and stops when the callback returns false. The error of
  the call surfaces only after the pages fetched before it have been handed over.
\<close>

fun find_account :: "AdminAccount option list \<Rightarrow> string \<Rightarrow> AdminAccount option" where
  "find_account [] adminAccountID = None"
| "find_account (None # as) adminAccountID = find_account as adminAccountID"
| "find_account (Some a # as) adminAccountID =
     (if aws_ToString (AccountId a) = adminAccountID then Some a
      else find_account as adminAccountID)"

definition page_callback ::
  "string \<Rightarrow> AdminAccount option list option \<Rightarrow> bool \<Rightarrow> AdminAccount option
     \<Rightarrow> bool \<times> AdminAccount option" where
  "page_callback adminAccountID page lastPage res =
     (case page of
        None \<Rightarrow> (\<not> lastPage, res)
      | Some accounts \<Rightarrow>
          (case find_account accounts adminAccountID of
             Some a \<Rightarrow> (False, Some a)
           | None \<Rightarrow> (\<not> lastPage, res)))"

fun pages_loop ::
  "AdminAccount option list option list \<Rightarrow> aws_error option \<Rightarrow> string \<Rightarrow> AdminAccount option
     \<Rightarrow> AdminAccount option \<times> error option" where
  "pages_loop [] err adminAccountID res = (res, lift_err err)"
| "pages_loop (p # ps) err adminAccountID res =
     (let lastPage = (ps = [] \<and> err = None)
      in case page_callback adminAccountID p lastPage res of
           (continue, res') \<Rightarrow>
             if continue then pages_loop ps err adminAccountID res' else (res', None))"

definition GetOrganizationAdminAccount ::
  "string \<Rightarrow> macie_world \<Rightarrow> (AdminAccount option \<times> error option) \<times> macie_world" where
  "GetOrganizationAdminAccount adminAccountID w =
     (case aws_call ListOrganizationAdminAccounts w of
        (r, w') \<Rightarrow> (pages_loop (m_pages r) (m_err r) adminAccountID None, w'))"

definition ErrorCodeClientError :: string where
  "ErrorCodeClientError = ''ClientError''"

definition ErrCodeAccessDeniedException :: string where
  "ErrCodeAccessDeniedException = ''AccessDeniedException''"

definition resourceOrganizationAdminAccountRead ::
  "ResourceData \<Rightarrow> macie_world \<Rightarrow> diag list \<times> ResourceData \<times> macie_world" where
  "resourceOrganizationAdminAccountRead d w =
     (case GetOrganizationAdminAccount (Id_m d) w of
        ((res, err), w') \<Rightarrow>
          if \<not> IsNewResource_m d \<and>
             (IsA_ResourceNotFoundException err \<or>
              ErrMessageContains err ErrCodeAccessDeniedException ''Macie is not enabled'')
          then ([], SetId [] d, w')
          else (case err of
                  Some e \<Rightarrow>
                    (AppendErrorf [] ''reading Macie OrganizationAdminAccount (%s): %s'' [Id_m d] e,
                     d, w')
                | None \<Rightarrow>
                    (case res of
                       None \<Rightarrow>
                         if \<not> IsNewResource_m d then ([], SetId [] d, w')
                         else ([ErrorDiag [] [] NotFoundError], d, w')
                     | Some a \<Rightarrow>
                         ([], d\<lparr>admin_account_id := aws_ToString (AccountId a)\<rparr>, w'))))"

text \<open>
  The function handed to \<open>retry.RetryContext\<close> by the Create handler: one
  \<open>EnableOrganizationAdminAccount\<close> call and the classification of its error. A nil error
  has no error code, so the test for \<open>ErrorCodeClientError\<close> can only succeed on an error.
\<close>

definition createRetryFunc ::
  "EnableOrganizationAdminAccountInput \<Rightarrow> macie_world \<Rightarrow> RetryError option \<times> macie_world" where
  "createRetryFunc input w =
     (case conn_EnableOrganizationAdminAccount input w of
        (err, w') \<Rightarrow>
          (case err of
             Some e \<Rightarrow>
               if ErrCodeEquals err ErrorCodeClientError then (Some (RetryableError e), w')
               else (Some (NonRetryableError e), w')
           | None \<Rightarrow> (None, w')))"

text \<open>
  The Create handler. \<open>uniqueId\<close> is what \<open>id.UniqueId()\<close> returns in this run: a fresh
  identifier, taken from neither the configuration nor AWS. \<open>retry\<close> stands for
  \<open>retry.RetryContext\<close>, which the handler calls with four minutes and the function above.
\<close>

definition createInput :: "string \<Rightarrow> ResourceData \<Rightarrow> EnableOrganizationAdminAccountInput" where
  "createInput uniqueId d = \<lparr>AdminAccountId = admin_account_id d, ClientToken = uniqueId\<rparr>"

definition resourceOrganizationAdminAccountCreate ::
  "(nat \<Rightarrow> (macie_world \<Rightarrow> RetryError option \<times> macie_world) \<Rightarrow> macie_world
      \<Rightarrow> error option \<times> macie_world)
     \<Rightarrow> string \<Rightarrow> ResourceData \<Rightarrow> macie_world \<Rightarrow> diag list \<times> ResourceData \<times> macie_world" where
  "resourceOrganizationAdminAccountCreate retry uniqueId d w =
     (let adminAccountID = admin_account_id d;
          input = createInput uniqueId d
      in case retry (4 * time_Minute) (createRetryFunc input) w of
           (err, w1) \<Rightarrow>
             (case (if TimedOut err then conn_EnableOrganizationAdminAccount input w1
                    else (err, w1)) of
                (err', w2) \<Rightarrow>
                  (case err' of
                     Some e \<Rightarrow>
                       (AppendErrorf [] ''creating Macie OrganizationAdminAccount: %s'' [] e, d, w2)
                   | None \<Rightarrow> resourceOrganizationAdminAccountRead (SetId adminAccountID d) w2)))"

text \<open>
  The retry of the Create handler under the model of \<open>retry.RetryContext\<close>: for any answer
  to a used-up window, and for the answer \<open>timeoutError\<close>.
\<close>

definition createRetryWith ::
  "(error option \<Rightarrow> error) \<Rightarrow> string \<Rightarrow> ResourceData \<Rightarrow> macie_world
     \<Rightarrow> error option \<times> macie_world" where
  "createRetryWith expired uniqueId d w =
     RetryContext expired (4 * time_Minute) (createRetryFunc (createInput uniqueId d)) w"

definition createRetry ::
  "string \<Rightarrow> ResourceData \<Rightarrow> macie_world \<Rightarrow> error option \<times> macie_world" where
  "createRetry uniqueId d w = createRetryWith timeoutError uniqueId d w"

definition resourceOrganizationAdminAccountDelete ::
  "ResourceData \<Rightarrow> macie_world \<Rightarrow> diag list \<times> macie_world" where
  "resourceOrganizationAdminAccountDelete d w =
     (case conn_DisableOrganizationAdminAccount (Id_m d) w of
        (err, w') \<Rightarrow>
          (case err of
             Some e \<Rightarrow>
               if IsA_ResourceNotFoundException err \<or>
                  ErrMessageContains err ErrCodeAccessDeniedException ''Macie is not enabled''
               then ([], w')
               else (AppendErrorf [] ''deleting Macie OrganizationAdminAccount (%s): %s'' [Id_m d] e,
                     w')
           | None \<Rightarrow> ([], w')))"

section \<open>Lex V2: \<open>aws_lexv2models_slot\<close>\<close>

text \<open>
  Terraform framework values (\<open>types.String\<close>, \<open>types.Bool\<close>, \<open>types.Int64\<close>,
  \<open>fwtypes.ListNestedObjectValueOf\<close>, ...) are null, unknown or known. \<open>Equal\<close> on them is
  equality of these values.
\<close>

datatype 'a tf_value = Null | Unknown | Known 'a

definition ValueString :: "string tf_value \<Rightarrow> string" where
  "ValueString v = (case v of Known s \<Rightarrow> s | _ \<Rightarrow> [])"

definition StringValue :: "string \<Rightarrow> string tf_value" where
  "StringValue s = Known s"

datatype MultipleValuesSettingData = MultipleValuesSettingData "bool tf_value"

datatype ObfuscationSettingData = ObfuscationSettingData "string tf_value"

datatype DefaultValueData = DefaultValueData "string tf_value"

datatype DefaultValueSpecificationData =
  DefaultValueSpecificationData "DefaultValueData list tf_value"

datatype DTMFSpecificationData =
  DTMFSpecificationData "string tf_value" "int tf_value" "string tf_value" "int tf_value"

datatype TextInputSpecificationData = TextInputSpecificationData "int tf_value"

datatype AllowedInputTypesData = AllowedInputTypesData "bool tf_value" "bool tf_value"

datatype AudioSpecificationData = AudioSpecificationData "int tf_value" "int tf_value"

datatype AudioAndDTMFInputSpecificationData =
  AudioAndDTMFInputSpecificationData "AudioSpecificationData list tf_value" "int tf_value"
    "DTMFSpecificationData list tf_value"

datatype PromptAttemptSpecificationData =
  PromptAttemptSpecificationData "AllowedInputTypesData list tf_value" "bool tf_value"
    "AudioAndDTMFInputSpecificationData list tf_value" "TextInputSpecificationData list tf_value"

datatype CustomPayloadData = CustomPayloadData "string tf_value"

datatype ButtonData = ButtonData "string tf_value" "string tf_value"

datatype ImageResponseCardData =
  ImageResponseCardData "string tf_value" "ButtonData list tf_value" "string tf_value"
    "string tf_value"

datatype PlainTextMessageData = PlainTextMessageData "string tf_value"

datatype SSMLMessageData = SSMLMessageData "string tf_value"

datatype MessageData =
  MessageData "CustomPayloadData list tf_value" "ImageResponseCardData list tf_value"
    "PlainTextMessageData list tf_value" "SSMLMessageData list tf_value"

datatype MessageGroupData =
  MessageGroupData "MessageData list tf_value" "MessageData list tf_value"

datatype PromptSpecificationData =
  PromptSpecificationData "bool tf_value" "int tf_value" "MessageGroupData list tf_value"
    "string tf_value" "(string \<times> PromptAttemptSpecificationData) list tf_value"

datatype SampleUtteranceData = SampleUtteranceData "string tf_value"

datatype SlotResolutionSettingData = SlotResolutionSettingData "string tf_value"

datatype ResponseSpecificationData =
  ResponseSpecificationData "bool tf_value" "MessageGroupData list tf_value"

datatype StillWaitingResponseSpecificationData =
  StillWaitingResponseSpecificationData "bool tf_value" "int tf_value"
    "MessageGroupData list tf_value" "int tf_value"

datatype WaitAndContinueSpecificationData =
  WaitAndContinueSpecificationData "bool tf_value" "ResponseSpecificationData list tf_value"
    "StillWaitingResponseSpecificationData list tf_value"
    "ResponseSpecificationData list tf_value"

datatype ValueElicitationSettingData =
  ValueElicitationSettingData "string tf_value"
    "DefaultValueSpecificationData list tf_value" "PromptSpecificationData list tf_value"
    "SampleUtteranceData list tf_value" "SlotResolutionSettingData list tf_value"
    "WaitAndContinueSpecificationData list tf_value"

record resourceSlotData =
  BotID :: "string tf_value"
  BotVersion :: "string tf_value"
  Description :: "string tf_value"
  ID :: "string tf_value"
  IntentID :: "string tf_value"
  LocaleID :: "string tf_value"
  MultipleValuesSetting :: "MultipleValuesSettingData list tf_value"
  Name :: "string tf_value"
  ObfuscationSetting :: "ObfuscationSettingData list tf_value"
  Timeouts :: "(string \<times> nat) list tf_value"
  SlotTypeID :: "string tf_value"
  ValueElicitationSettings :: "ValueElicitationSettingData list tf_value"

definition slotHasChanges :: "resourceSlotData \<Rightarrow> resourceSlotData \<Rightarrow> bool" where
  "slotHasChanges plan state =
     (\<not> Description plan = Description state \<or>
      \<not> Name plan = Name state \<or>
      \<not> Description plan = Description state \<or>
      \<not> SlotTypeID plan = SlotTypeID state \<or>
      \<not> ObfuscationSetting plan = ObfuscationSetting state)"

definition ResNameSlot :: string where "ResNameSlot = ''Slot''"
definition slotIDPartCount :: nat where "slotIDPartCount = 5"

subsection \<open>Composite resource IDs\<close>

text \<open>
  Modelled from the spec: \<open>intflex.FlattenResourceId\<close> and \<open>intflex.ExpandResourceId\<close>
  are not among the files at hand; the spec describes them as packing composite multi-part
  identifiers into single string IDs and parsing them back. The model joins the parts with
  the separator \<open>ResourceIdSeparator\<close> and splits at it; both directions refuse a part list
  of at most one part, a part count other than the expected one and, unless empty parts
  are allowed, an empty part.
\<close>

definition ResourceIdSeparator :: char where "ResourceIdSeparator = CHR '',''"

fun Split :: "string \<Rightarrow> char \<Rightarrow> string list" where
  "Split [] sep = [[]]"
| "Split (c # cs) sep =
     (if c = sep then [] # Split cs sep
      else (case Split cs sep of
              [] \<Rightarrow> [[c]]
            | p # ps \<Rightarrow> (c # p) # ps))"

fun Join :: "string list \<Rightarrow> char \<Rightarrow> string" where
  "Join [] sep = []"
| "Join [p] sep = p"
| "Join (p # q # ps) sep = p @ sep # Join (q # ps) sep"

definition ExpandResourceId :: "string \<Rightarrow> nat \<Rightarrow> bool \<Rightarrow> error + string list" where
  "ExpandResourceId resourceId partCount allowEmptyPart =
     (let idParts = Split resourceId ResourceIdSeparator
      in if length idParts \<le> 1 then Inl (IDFormatError ''expected more than one part'')
         else if length idParts \<noteq> partCount then Inl (IDFormatError ''unexpected part count'')
         else if \<not> allowEmptyPart \<and> (\<exists>part \<in> set idParts. part = [])
         then Inl (IDFormatError ''blank id parts'')
         else Inr idParts)"

definition FlattenResourceId :: "string list \<Rightarrow> nat \<Rightarrow> bool \<Rightarrow> error + string" where
  "FlattenResourceId idParts partCount allowEmptyPart =
     (if length idParts \<le> 1 then Inl (IDFormatError ''expected more than one part'')
      else if length idParts \<noteq> partCount then Inl (IDFormatError ''unexpected part count'')
      else if \<not> allowEmptyPart \<and> (\<exists>part \<in> set idParts. part = [])
      then Inl (IDFormatError ''blank id parts'')
      else Inr (Join idParts ResourceIdSeparator))"

subsection \<open>The Lex client\<close>

text \<open>
  The request and output shapes of the Lex client, with pointers as options.
  \<open>SlotInput\<close> stands for \<open>CreateSlotInput\<close> and \<open>UpdateSlotInput\<close> (whose \<open>SlotId\<close> the create
  input lacks), \<open>SlotKey\<close> for \<open>DescribeSlotInput\<close> and \<open>DeleteSlotInput\<close>, which have the same
  five fields, and \<open>SlotOutput\<close> for the outputs of create, update and describe.
\<close>

record SlotInput =
  in_BotId :: "string option"
  in_BotVersion :: "string option"
  in_Description :: "string option"
  in_IntentId :: "string option"
  in_LocaleId :: "string option"
  in_MultipleValuesSetting :: "MultipleValuesSettingData list option"
  in_ObfuscationSetting :: "ObfuscationSettingData list option"
  in_SlotId :: "string option"
  in_SlotName :: "string option"
  in_SlotTypeId :: "string option"
  in_ValueElicitationSetting :: "ValueElicitationSettingData list option"

record SlotKey =
  BotId :: "string option"
  BotVersion_k :: "string option"
  IntentId :: "string option"
  LocaleId :: "string option"
  SlotId :: "string option"

record SlotOutput =
  out_BotId :: "string option"
  out_BotVersion :: "string option"
  out_Description :: "string option"
  out_IntentId :: "string option"
  out_LocaleId :: "string option"
  out_MultipleValuesSetting :: "MultipleValuesSettingData list option"
  out_ObfuscationSetting :: "ObfuscationSettingData list option"
  out_SlotId :: "string option"
  out_SlotName :: "string option"
  out_SlotTypeId :: "string option"
  out_ValueElicitationSetting :: "ValueElicitationSettingData list option"

datatype lex_request =
    CreateSlot SlotInput
  | UpdateSlot SlotInput
  | DeleteSlot SlotKey
  | DescribeSlot SlotKey

record lex_response =
  l_err :: "aws_error option"
  l_out :: "SlotOutput option"

type_synonym lex_world = "(lex_request, lex_response) world"

definition conn_CreateSlot ::
  "SlotInput \<Rightarrow> lex_world \<Rightarrow> (SlotOutput option \<times> error option) \<times> lex_world" where
  "conn_CreateSlot input w =
     (case aws_call (CreateSlot input) w of (r, w') \<Rightarrow> ((l_out r, lift_err (l_err r)), w'))"

definition conn_UpdateSlot ::
  "SlotInput \<Rightarrow> lex_world \<Rightarrow> (SlotOutput option \<times> error option) \<times> lex_world" where
  "conn_UpdateSlot input w =
     (case aws_call (UpdateSlot input) w of (r, w') \<Rightarrow> ((l_out r, lift_err (l_err r)), w'))"

definition conn_DeleteSlot :: "SlotKey \<Rightarrow> lex_world \<Rightarrow> error option \<times> lex_world" where
  "conn_DeleteSlot input w =
     (case aws_call (DeleteSlot input) w of (r, w') \<Rightarrow> (lift_err (l_err r), w'))"

definition conn_DescribeSlot ::
  "SlotKey \<Rightarrow> lex_world \<Rightarrow> (SlotOutput option \<times> error option) \<times> lex_world" where
  "conn_DescribeSlot input w =
     (case aws_call (DescribeSlot input) w of (r, w') \<Rightarrow> ((l_out r, lift_err (l_err r)), w'))"

text \<open>
  Modelled from the spec: \<open>flex.Expand\<close> and \<open>flex.Flatten\<close> are not among the files at
  hand; the spec describes them as the translation between Terraform's schema-based state
  representation and the AWS API shapes. The model copies each field to the field of the
  same name (a null or unknown value becomes a nil pointer and back) and reports no
  diagnostics. The resource's \<open>id\<close>, \<open>name\<close> and \<open>timeouts\<close> have no namesake on the AWS
  side and are left alone.
\<close>

definition tf_to_ptr :: "'a tf_value \<Rightarrow> 'a option" where
  "tf_to_ptr v = (case v of Known x \<Rightarrow> Some x | _ \<Rightarrow> None)"

definition ptr_to_tf :: "'a option \<Rightarrow> 'a tf_value" where
  "ptr_to_tf p = (case p of Some x \<Rightarrow> Known x | None \<Rightarrow> Null)"

definition flex_Expand :: "resourceSlotData \<Rightarrow> SlotInput \<Rightarrow> diag list \<times> SlotInput" where
  "flex_Expand plan input =
     ([], input\<lparr>in_BotId := tf_to_ptr (BotID plan),
                 in_BotVersion := tf_to_ptr (BotVersion plan),
                 in_Description := tf_to_ptr (Description plan),
                 in_IntentId := tf_to_ptr (IntentID plan),
                 in_LocaleId := tf_to_ptr (LocaleID plan),
                 in_MultipleValuesSetting := tf_to_ptr (MultipleValuesSetting plan),
                 in_ObfuscationSetting := tf_to_ptr (ObfuscationSetting plan),
                 in_SlotTypeId := tf_to_ptr (SlotTypeID plan),
                 in_ValueElicitationSetting := tf_to_ptr (ValueElicitationSettings plan)\<rparr>)"

definition flex_Flatten :: "SlotOutput \<Rightarrow> resourceSlotData \<Rightarrow> diag list \<times> resourceSlotData" where
  "flex_Flatten out data =
     ([], data\<lparr>BotID := ptr_to_tf (out_BotId out),
                BotVersion := ptr_to_tf (out_BotVersion out),
                Description := ptr_to_tf (out_Description out),
                IntentID := ptr_to_tf (out_IntentId out),
                LocaleID := ptr_to_tf (out_LocaleId out),
                MultipleValuesSetting := ptr_to_tf (out_MultipleValuesSetting out),
                ObfuscationSetting := ptr_to_tf (out_ObfuscationSetting out),
                SlotTypeID := ptr_to_tf (out_SlotTypeId out),
                ValueElicitationSettings := ptr_to_tf (out_ValueElicitationSetting out)\<rparr>)"

text \<open>
  What a framework handler hands back: the diagnostics and the state (\<open>None\<close> when the
  resource is not, or no longer, in the state). All diagnostics of the model are errors.
  The plan and the prior state reach a handler already decoded into \<open>resourceSlotData\<close>;
  the response of Update, Read and Delete starts out with the prior state, that of Create
  with none.
\<close>

record Response =
  Diagnostics :: "diag list"
  State :: "resourceSlotData option"

definition HasError :: "diag list \<Rightarrow> bool" where
  "HasError ds = (ds \<noteq> [])"

definition AddError :: "string \<Rightarrow> string list \<Rightarrow> error \<Rightarrow> Response \<Rightarrow> Response" where
  "AddError action args err resp =
     resp\<lparr>Diagnostics := Diagnostics resp @ [ErrorDiag action args err]\<rparr>"

definition Append :: "diag list \<Rightarrow> Response \<Rightarrow> Response" where
  "Append ds resp = resp\<lparr>Diagnostics := Diagnostics resp @ ds\<rparr>"

definition tf_String :: "string tf_value \<Rightarrow> string" where
  "tf_String v =
     (case v of Known s \<Rightarrow> ''\"'' @ s @ ''\"'' | Null \<Rightarrow> ''<null>'' | Unknown \<Rightarrow> ''<unknown>'')"

definition emptySlotInput :: SlotInput where
  "emptySlotInput =
     \<lparr>in_BotId = None, in_BotVersion = None, in_Description = None, in_IntentId = None,
      in_LocaleId = None, in_MultipleValuesSetting = None, in_ObfuscationSetting = None,
      in_SlotId = None, in_SlotName = None, in_SlotTypeId = None,
      in_ValueElicitationSetting = None\<rparr>"

text \<open>
  A Go slice index out of range and a nil pointer dereference panic; a handler either
  panics or returns.
\<close>

datatype 'a outcome = Panic | Return 'a

subsection \<open>The handlers of the slot resource\<close>

definition resourceSlot :: Resource where
  "resourceSlot =
     \<lparr>Create = Some resourceSlot_Create_h, Read = Some resourceSlot_Read_h,
      Update = Some resourceSlot_Update_h, Delete = Some resourceSlot_Delete_h\<rparr>"

text \<open>
  The Create handler, with \<open>flex.Expand\<close> and \<open>flex.Flatten\<close> as parameters, and with the
  field-by-field copies in their place.
\<close>

definition resourceSlot_Create_with ::
  "(resourceSlotData \<Rightarrow> SlotInput \<Rightarrow> diag list \<times> SlotInput)
     \<Rightarrow> (SlotOutput \<Rightarrow> resourceSlotData \<Rightarrow> diag list \<times> resourceSlotData)
     \<Rightarrow> resourceSlotData \<Rightarrow> lex_world \<Rightarrow> Response \<times> lex_world" where
  "resourceSlot_Create_with expand flatten plan w =
     (let resp0 = \<lparr>Diagnostics = [], State = None\<rparr>;
          in0 = emptySlotInput\<lparr>in_SlotName := Some (ValueString (Name plan))\<rparr>
      in case expand plan in0 of
           (ds, input) \<Rightarrow>
             let resp1 = Append ds resp0
             in if HasError (Diagnostics resp1) then (resp1, w)
                else (case conn_CreateSlot input w of
                        ((out, err), w') \<Rightarrow>
                          (case err of
                             Some e \<Rightarrow>
                               (AddError ''creating'' [ResNameSlot, tf_String (Name plan)] e resp1, w')
                           | None \<Rightarrow>
                               (case out of
                                  None \<Rightarrow>
                                    (AddError ''creating'' [ResNameSlot, tf_String (Name plan)]
                                       EmptyOutput resp1, w')
                                | Some out \<Rightarrow>
                                    let idParts =
                                      [aws_ToString (out_BotId out),
                                       aws_ToString (out_BotVersion out),
                                       aws_ToString (out_IntentId out),
                                       aws_ToString (out_LocaleId out),
                                       aws_ToString (out_SlotId out)]
                                    in (case FlattenResourceId idParts slotIDPartCount False of
                                          Inl e \<Rightarrow>
                                            (AddError ''creating''
                                               [ResNameSlot, tf_String (Name plan)] e resp1, w')
                                        | Inr rid \<Rightarrow>
                                            (case flatten out (plan\<lparr>ID := StringValue rid\<rparr>) of
                                               (ds', plan') \<Rightarrow>
                                                 let resp2 = Append ds' resp1
                                                 in if HasError (Diagnostics resp2) then (resp2, w')
                                                    else (resp2\<lparr>State := Some plan'\<rparr>, w')))))))"

definition resourceSlot_Create :: "resourceSlotData \<Rightarrow> lex_world \<Rightarrow> Response \<times> lex_world" where
  "resourceSlot_Create plan w = resourceSlot_Create_with flex_Expand flex_Flatten plan w"

text \<open>
  Modelled from the spec: \<open>tfresource.NotFound\<close> is not among the files at hand; by its name
  and call sites it holds of a \<open>retry.NotFoundError\<close>.
\<close>

definition NotFound :: "error option \<Rightarrow> bool" where
  "NotFound err = (err = Some NotFoundError)"

definition findSlotByID ::
  "string \<Rightarrow> lex_world \<Rightarrow> ((SlotOutput option \<times> error option) \<times> lex_world) outcome" where
  "findSlotByID rid w =
     (case ExpandResourceId rid slotIDPartCount False of
        Inl e \<Rightarrow> Return ((None, Some e), w)
      | Inr parts \<Rightarrow>
          (case parts of
             p0 # p1 # p2 # p3 # p4 # rest \<Rightarrow>
               let input = \<lparr>BotId = Some p0, BotVersion_k = Some p1, IntentId = Some p2,
                            LocaleId = Some p3, SlotId = Some p4\<rparr>
               in (case conn_DescribeSlot input w of
                     ((out, err), w') \<Rightarrow>
                       (case err of
                          Some e \<Rightarrow>
                            if IsA_ResourceNotFoundException err
                            then Return ((None, Some NotFoundError), w')
                            else Return ((None, Some e), w')
                        | None \<Rightarrow>
                            (case out of
                               None \<Rightarrow> Return ((None, Some EmptyResultError), w')
                             | Some out \<Rightarrow> Return ((Some out, None), w'))))
           | _ \<Rightarrow> Panic))"

definition resourceSlot_Read ::
  "resourceSlotData \<Rightarrow> lex_world \<Rightarrow> (Response \<times> lex_world) outcome" where
  "resourceSlot_Read state w =
     (let resp0 = \<lparr>Diagnostics = [], State = Some state\<rparr>
      in case findSlotByID (ValueString (ID state)) w of
           Panic \<Rightarrow> Panic
         | Return ((out, err), w') \<Rightarrow>
             if NotFound err then Return (resp0\<lparr>State := None\<rparr>, w')
             else (case err of
                     Some e \<Rightarrow>
                       Return (AddError ''setting'' [ResNameSlot, tf_String (ID state)] e resp0, w')
                   | None \<Rightarrow>
                       (case out of
                          None \<Rightarrow> Panic
                        | Some out \<Rightarrow>
                            (case flex_Flatten out state of
                               (ds, state') \<Rightarrow>
                                 let resp1 = Append ds resp0
                                 in if HasError (Diagnostics resp1) then Return (resp1, w')
                                    else Return (resp1\<lparr>State := Some state'\<rparr>, w')))))"

text \<open>
  The Update handler, with \<open>flex.Expand\<close> as a parameter: whether the expansion of a plan
  reports a diagnostic is not decided by the files at hand.
\<close>

definition resourceSlot_Update ::
  "(resourceSlotData \<Rightarrow> SlotInput \<Rightarrow> diag list \<times> SlotInput)
     \<Rightarrow> resourceSlotData \<Rightarrow> resourceSlotData \<Rightarrow> lex_world \<Rightarrow> Response \<times> lex_world" where
  "resourceSlot_Update expand plan state w =
     (let resp0 = \<lparr>Diagnostics = [], State = Some state\<rparr>
      in if slotHasChanges plan state
         then (case expand plan emptySlotInput of
                 (ds, input) \<Rightarrow>
                   let resp1 = Append ds resp0
                   in if HasError (Diagnostics resp1) then (resp1, w)
                      else (case conn_UpdateSlot input w of
                              ((out, err), w') \<Rightarrow>
                                (case err of
                                   Some e \<Rightarrow>
                                     (AddError ''updating'' [ResNameSlot, tf_String (ID plan)] e
                                        resp1, w')
                                 | None \<Rightarrow>
                                     (case out of
                                        None \<Rightarrow>
                                          (AddError ''updating'' [ResNameSlot, tf_String (ID plan)]
                                             EmptyOutput resp1, w')
                                      | Some out \<Rightarrow>
                                          if HasError (Diagnostics resp1) then (resp1, w')
                                          else (resp1\<lparr>State := Some plan\<rparr>, w')))))
         else (resp0\<lparr>State := Some plan\<rparr>, w))"

definition resourceSlot_Delete :: "resourceSlotData \<Rightarrow> lex_world \<Rightarrow> Response \<times> lex_world" where
  "resourceSlot_Delete state w =
     (let resp0 = \<lparr>Diagnostics = [], State = Some state\<rparr>;
          input = \<lparr>BotId = Some (ValueString (ID state)),
                   BotVersion_k = Some (ValueString (ID state)),
                   IntentId = Some (ValueString (ID state)),
                   LocaleId = Some (ValueString (ID state)),
                   SlotId = Some (ValueString (ID state))\<rparr>
      in case conn_DeleteSlot input w of
           (err, w') \<Rightarrow>
             (case err of
                Some e \<Rightarrow>
                  if IsA_ResourceNotFoundException err then (resp0, w')
                  else (AddError ''deleting'' [ResNameSlot, tf_String (ID state)] e resp0, w')
              | None \<Rightarrow> (resp0, w')))"

section \<open>Grafana: the workspace SAML configuration\<close>

definition ResourceWorkspaceSamlConfiguration :: Resource where
  "ResourceWorkspaceSamlConfiguration =
     \<lparr>Create = Some resourceWorkspaceSamlConfigurationUpsert_h,
      Read = Some resourceWorkspaceSamlConfigurationRead_h,
      Update = Some resourceWorkspaceSamlConfigurationUpsert_h,
      Delete = Some resourceWorkspaceSamlConfigurationDelete_h\<rparr>"

text \<open>
  The shapes of the \<open>managedgrafana\<close> package the handlers touch. Every pointer is an
  option; a nil slice is \<open>None\<close>.
\<close>

record role_values =
  Admin :: "string list option"
  Editor :: "string list option"

record assertion_attributes =
  Email :: "string option"
  Groups :: "string option"
  Login :: "string option"
  Name_aa :: "string option"
  Org :: "string option"
  Role :: "string option"

record idp_metadata =
  Url :: "string option"
  Xml :: "string option"

record saml_configuration =
  AllowedOrganizations :: "string list option"
  AssertionAttributes :: "assertion_attributes option"
  IdpMetadata :: "idp_metadata option"
  LoginValidityDuration :: "int option"
  RoleValues :: "role_values option"

record saml_authentication =
  Configuration :: "saml_configuration option"
  Status :: "string option"

record authentication_summary =
  Providers :: "string list option"

record workspace_description =
  Authentication :: "authentication_summary option"

record UpdateWorkspaceAuthenticationInput =
  AuthenticationProviders :: "string list option"
  SamlConfiguration :: "saml_configuration option"
  WorkspaceId :: "string option"

datatype grafana_request =
    DescribeWorkspace string
  | DescribeWorkspaceAuthentication string
  | UpdateWorkspaceAuthentication UpdateWorkspaceAuthenticationInput

record grafana_response =
  g_err :: "aws_error option"
  g_workspace :: "workspace_description option"
  g_saml :: "saml_authentication option"

type_synonym grafana_world = "(grafana_request, grafana_response) world"

definition conn_UpdateWorkspaceAuthentication ::
  "UpdateWorkspaceAuthenticationInput \<Rightarrow> grafana_world \<Rightarrow> error option \<times> grafana_world" where
  "conn_UpdateWorkspaceAuthentication input w =
     (case aws_call (UpdateWorkspaceAuthentication input) w of
        (r, w') \<Rightarrow> (lift_err (g_err r), w'))"

definition SamlConfigurationStatusConfigured :: string where
  "SamlConfigurationStatusConfigured = ''CONFIGURED''"

definition SamlConfigurationStatusNotConfigured :: string where
  "SamlConfigurationStatusNotConfigured = ''NOT_CONFIGURED''"

text \<open>
  Modelled from the spec: \<open>FindWorkspaceByID\<close> and \<open>FindSamlConfigurationByID\<close> are not
  among the files at hand. By their names and call sites they describe the workspace,
  respectively its authentication, and hand back what AWS returns; a
  \<open>ResourceNotFoundException\<close>, and a SAML configuration that is not configured, become a
  not-found error, and an empty output becomes an empty-result error.
\<close>

definition FindWorkspaceByID ::
  "string \<Rightarrow> grafana_world \<Rightarrow> (workspace_description option \<times> error option) \<times> grafana_world" where
  "FindWorkspaceByID workspaceId w =
     (case aws_call (DescribeWorkspace workspaceId) w of
        (r, w') \<Rightarrow>
          (case g_err r of
             Some e \<Rightarrow>
               if ErrCodeEquals (Some (AWSError e)) ''ResourceNotFoundException''
               then ((None, Some NotFoundError), w')
               else ((None, Some (AWSError e)), w')
           | None \<Rightarrow>
               (case g_workspace r of
                  None \<Rightarrow> ((None, Some EmptyResultError), w')
                | Some ws \<Rightarrow> ((Some ws, None), w'))))"

definition FindSamlConfigurationByID ::
  "string \<Rightarrow> grafana_world \<Rightarrow> (saml_authentication option \<times> error option) \<times> grafana_world" where
  "FindSamlConfigurationByID workspaceId w =
     (case aws_call (DescribeWorkspaceAuthentication workspaceId) w of
        (r, w') \<Rightarrow>
          (case g_err r of
             Some e \<Rightarrow>
               if ErrCodeEquals (Some (AWSError e)) ''ResourceNotFoundException''
               then ((None, Some NotFoundError), w')
               else ((None, Some (AWSError e)), w')
           | None \<Rightarrow>
               (case g_saml r of
                  None \<Rightarrow> ((None, Some EmptyResultError), w')
                | Some saml \<Rightarrow>
                    if aws_ToString (Status saml) = SamlConfigurationStatusNotConfigured
                    then ((None, Some NotFoundError), w')
                    else ((Some saml, None), w'))))"

text \<open>
  Modelled from the spec: \<open>waitWorkspaceSamlConfigurationCreated\<close> and
  \<open>waitWorkspaceSamlConfigurationDeleted\<close> are not among the files at hand; the spec
  describes them as polling loops that wait for asynchronous AWS operations to reach a
  terminal state, bounded by a timeout. The model reads the status of the SAML
  configuration (\<open>None\<close> when it is not found) until it is the awaited one: configured for a
  create, gone for a delete. An error of the status read ends the wait with that error,
  and the used-up time ends it with a \<open>TimeoutError\<close>.
\<close>

definition statusWorkspaceSamlConfiguration ::
  "string \<Rightarrow> grafana_world \<Rightarrow> (string option \<times> error option) \<times> grafana_world" where
  "statusWorkspaceSamlConfiguration workspaceId w =
     (case FindSamlConfigurationByID workspaceId w of
        ((saml, err), w') \<Rightarrow>
          if NotFound err then ((None, None), w')
          else (case err of
                  Some e \<Rightarrow> ((None, Some e), w')
                | None \<Rightarrow>
                    (case saml of
                       None \<Rightarrow> ((None, None), w')
                     | Some a \<Rightarrow> ((Some (aws_ToString (Status a)), None), w'))))"

function wait_loop ::
  "nat \<Rightarrow> (('q, 'r) world \<Rightarrow> (string option \<times> error option) \<times> ('q, 'r) world)
     \<Rightarrow> (string option \<Rightarrow> bool) \<Rightarrow> ('q, 'r) world \<Rightarrow> error option \<times> ('q, 'r) world" where
  "wait_loop remaining refresh target w =
     (if remaining = 0 then (Some (TimeoutError None), w)
      else (case refresh w of
              ((st, Some e), w') \<Rightarrow> (Some e, w')
            | ((st, None), w') \<Rightarrow>
                if target st then (None, w')
                else wait_loop (remaining - (retryInterval + (clock w' - clock w))) refresh target
                       (sleep retryInterval w')))"
  by pat_completeness auto
termination
  by (relation "measure (\<lambda>(remaining, refresh, target, w). remaining)")
     (auto simp: retryInterval_def time_Millisecond_def)

definition waitWorkspaceSamlConfigurationCreated ::
  "string \<Rightarrow> nat \<Rightarrow> grafana_world \<Rightarrow> error option \<times> grafana_world" where
  "waitWorkspaceSamlConfigurationCreated workspaceId timeout w =
     wait_loop timeout (statusWorkspaceSamlConfiguration workspaceId)
       (\<lambda>st. st = Some SamlConfigurationStatusConfigured) w"

definition waitWorkspaceSamlConfigurationDeleted ::
  "string \<Rightarrow> nat \<Rightarrow> grafana_world \<Rightarrow> error option \<times> grafana_world" where
  "waitWorkspaceSamlConfigurationDeleted workspaceId timeout w =
     wait_loop timeout (statusWorkspaceSamlConfiguration workspaceId) (\<lambda>st. st = None) w"

text \<open>
  The resource data of the SAML configuration: the ID, the attributes the handlers read
  and write (an unset string is empty, an unset list is empty, so \<open>GetOk\<close> is the test for
  a non-zero value) and the configured timeouts, ten minutes by default. \<open>workspace_id\<close> is
  what \<open>d.Get("workspace_id")\<close> hands back: the schema of the resource declares no such
  attribute, and where the value is nil the unchecked type assertion to a string panics.
\<close>

record grafana_data =
  Id_g :: string
  workspace_id :: "string option"
  IsNewResource_g :: bool
  admin_role_values :: "string list"
  allowed_organizations :: "string list"
  editor_role_values :: "string list"
  email_assertion :: string
  groups_assertion :: string
  idp_metadata_url :: string
  idp_metadata_xml :: string
  login_assertion :: string
  login_validity_duration :: int
  name_assertion :: string
  org_assertion :: string
  role_assertion :: string
  status :: string
  timeout_create :: "nat option"
  timeout_delete :: "nat option"

definition Timeout_Create :: "grafana_data \<Rightarrow> nat" where
  "Timeout_Create d = (case timeout_create d of Some t \<Rightarrow> t | None \<Rightarrow> 10 * time_Minute)"

definition Timeout_Delete :: "grafana_data \<Rightarrow> nat" where
  "Timeout_Delete d = (case timeout_delete d of Some t \<Rightarrow> t | None \<Rightarrow> 10 * time_Minute)"

definition emptyAssertionAttributes :: assertion_attributes where
  "emptyAssertionAttributes =
     \<lparr>Email = None, Groups = None, Login = None, Name_aa = None, Org = None, Role = None\<rparr>"

definition orEmpty :: "assertion_attributes option \<Rightarrow> assertion_attributes" where
  "orEmpty a = (case a of None \<Rightarrow> emptyAssertionAttributes | Some x \<Rightarrow> x)"

definition expandAssertionAttributes :: "grafana_data \<Rightarrow> assertion_attributes option" where
  "expandAssertionAttributes d =
     (let a0 = None;
          a1 = (if email_assertion d \<noteq> []
                then Some (emptyAssertionAttributes\<lparr>Email := Some (email_assertion d)\<rparr>) else a0);
          a2 = (if groups_assertion d \<noteq> []
                then Some ((orEmpty a1)\<lparr>Groups := Some (groups_assertion d)\<rparr>) else a1);
          a3 = (if login_assertion d \<noteq> []
                then Some ((orEmpty a2)\<lparr>Login := Some (login_assertion d)\<rparr>) else a2);
          a4 = (if name_assertion d \<noteq> []
                then Some ((orEmpty a3)\<lparr>Name_aa := Some (name_assertion d)\<rparr>) else a3);
          a5 = (if org_assertion d \<noteq> []
                then Some ((orEmpty a4)\<lparr>Org := Some (org_assertion d)\<rparr>) else a4);
          a6 = (if role_assertion d \<noteq> []
                then Some ((orEmpty a5)\<lparr>Role := Some (role_assertion d)\<rparr>) else a5)
      in a6)"

definition upsertSamlConfiguration :: "grafana_data \<Rightarrow> saml_configuration" where
  "upsertSamlConfiguration d =
     \<lparr>AllowedOrganizations =
        (if allowed_organizations d \<noteq> [] then Some (allowed_organizations d) else None),
      AssertionAttributes = expandAssertionAttributes d,
      IdpMetadata = None,
      LoginValidityDuration = None,
      RoleValues =
        Some \<lparr>Admin = (if admin_role_values d \<noteq> [] then Some (admin_role_values d) else None),
              Editor = Some (editor_role_values d)\<rparr>\<rparr>"

definition set_opt :: "'a option \<Rightarrow> ('a \<Rightarrow> grafana_data \<Rightarrow> grafana_data) \<Rightarrow> grafana_data \<Rightarrow> grafana_data" where
  "set_opt p setter d = (case p of None \<Rightarrow> d | Some v \<Rightarrow> setter v d)"

definition resourceWorkspaceSamlConfigurationRead ::
  "grafana_data \<Rightarrow> grafana_world \<Rightarrow> (error option \<times> grafana_data \<times> grafana_world) outcome" where
  "resourceWorkspaceSamlConfigurationRead d w =
     (case FindSamlConfigurationByID (Id_g d) w of
        ((saml, err), w') \<Rightarrow>
          if NotFound err \<and> \<not> IsNewResource_g d then Return (None, d\<lparr>Id_g := []\<rparr>, w')
          else (case err of
                  Some e \<Rightarrow>
                    Return (Some (Wrapped ''error reading Grafana Workspace Saml Configuration (%s)'' e),
                            d, w')
                | None \<Rightarrow>
                    (case saml of
                       None \<Rightarrow> Panic
                     | Some a \<Rightarrow>
                         (case Configuration a of
                            None \<Rightarrow> Panic
                          | Some c \<Rightarrow>
                              (case RoleValues c of
                                 None \<Rightarrow> Panic
                               | Some rv \<Rightarrow>
                                   (case AssertionAttributes c of
                                      None \<Rightarrow> Panic
                                    | Some aa \<Rightarrow>
                                        (case IdpMetadata c of
                                           None \<Rightarrow> Panic
                                         | Some md \<Rightarrow>
                                             Return (None,
                                               (set_opt (Role aa) (\<lambda>v d. d\<lparr>role_assertion := v\<rparr>)
                                                (set_opt (Org aa) (\<lambda>v d. d\<lparr>org_assertion := v\<rparr>)
                                                (set_opt (Name_aa aa) (\<lambda>v d. d\<lparr>name_assertion := v\<rparr>)
                                                (set_opt (LoginValidityDuration c)
                                                   (\<lambda>v d. d\<lparr>login_validity_duration := v\<rparr>)
                                                (set_opt (Login aa) (\<lambda>v d. d\<lparr>login_assertion := v\<rparr>)
                                                (set_opt (Xml md) (\<lambda>v d. d\<lparr>idp_metadata_xml := v\<rparr>)
                                                (set_opt (Url md) (\<lambda>v d. d\<lparr>idp_metadata_url := v\<rparr>)
                                                (set_opt (Groups aa) (\<lambda>v d. d\<lparr>groups_assertion := v\<rparr>)
                                                (set_opt (Email aa) (\<lambda>v d. d\<lparr>email_assertion := v\<rparr>)
                                                ((set_opt (AllowedOrganizations c)
                                                   (\<lambda>v d. d\<lparr>allowed_organizations := v\<rparr>)
                                                (set_opt (Admin rv) (\<lambda>v d. d\<lparr>admin_role_values := v\<rparr>)
                                                   d))
                                                 \<lparr>editor_role_values :=
                                                     (case Editor rv of None \<Rightarrow> [] | Some v \<Rightarrow> v)\<rparr>))))))))))
                                               \<lparr>status := aws_ToString (Status a)\<rparr>,
                                               w'))))))))"

text \<open>
  The Upsert and Delete handlers, with the waiter each calls as a parameter.
\<close>

definition resourceWorkspaceSamlConfigurationUpsert ::
  "(string \<Rightarrow> nat \<Rightarrow> grafana_world \<Rightarrow> error option \<times> grafana_world)
     \<Rightarrow> grafana_data \<Rightarrow> grafana_world \<Rightarrow> (error option \<times> grafana_data \<times> grafana_world) outcome" where
  "resourceWorkspaceSamlConfigurationUpsert waitCreated d0 w =
     (case workspace_id d0 of
        None \<Rightarrow> Panic
      | Some workspaceId \<Rightarrow>
          let d = d0\<lparr>Id_g := workspaceId\<rparr>
          in case FindWorkspaceByID (Id_g d) w of
               ((workspace, err), w1) \<Rightarrow>
                 if NotFound err \<and> \<not> IsNewResource_g d then Return (None, d\<lparr>Id_g := []\<rparr>, w1)
                 else (case err of
                         Some e \<Rightarrow>
                           Return (Some (Wrapped ''error reading Grafana Workspace (%s)'' e), d, w1)
                       | None \<Rightarrow>
                           (case workspace of
                              None \<Rightarrow> Panic
                            | Some ws \<Rightarrow>
                                (case Authentication ws of
                                   None \<Rightarrow> Panic
                                 | Some auth \<Rightarrow>
                                     let input = \<lparr>AuthenticationProviders = Providers auth,
                                                  SamlConfiguration = Some (upsertSamlConfiguration d),
                                                  WorkspaceId = Some (Id_g d)\<rparr>
                                     in (case conn_UpdateWorkspaceAuthentication input w1 of
                                           (Some e, w2) \<Rightarrow>
                                             Return
                                               (Some (Wrapped ''error creating Grafana Saml Configuration'' e),
                                                d, w2)
                                         | (None, w2) \<Rightarrow>
                                             (case waitCreated (Id_g d) (Timeout_Create d) w2 of
                                                (Some e, w3) \<Rightarrow>
                                                  Return
                                                    (Some (Wrapped
                                                       ''error waiting for Grafana Workspace Saml Configuration (%s) create''
                                                       e), d, w3)
                                              | (None, w3) \<Rightarrow>
                                                  resourceWorkspaceSamlConfigurationRead d w3))))))"

definition resourceWorkspaceSamlConfigurationDelete ::
  "(string \<Rightarrow> nat \<Rightarrow> grafana_world \<Rightarrow> error option \<times> grafana_world)
     \<Rightarrow> grafana_data \<Rightarrow> grafana_world \<Rightarrow> (error option \<times> grafana_world) outcome" where
  "resourceWorkspaceSamlConfigurationDelete waitDeleted d w =
     (case FindWorkspaceByID (Id_g d) w of
        ((workspace, err), w1) \<Rightarrow>
          (case err of
             Some e \<Rightarrow>
               Return (Some (Wrapped ''error deleting Grafana Workspace Saml Configuration (%s)'' e), w1)
           | None \<Rightarrow>
               (case workspace of
                  None \<Rightarrow> Panic
                | Some ws \<Rightarrow>
                    (case Authentication ws of
                       None \<Rightarrow> Panic
                     | Some auth \<Rightarrow>
                         let input = \<lparr>AuthenticationProviders = Providers auth,
                                      SamlConfiguration = None,
                                      WorkspaceId = Some (Id_g d)\<rparr>
                         in (case conn_UpdateWorkspaceAuthentication input w1 of
                               (Some e, w2) \<Rightarrow>
                                 Return
                                   (Some (Wrapped
                                      ''error deleting Grafana Workspace Saml Configuration (%s)'' e),
                                    w2)
                             | (None, w2) \<Rightarrow>
                                 (case waitDeleted (Id_g d) (Timeout_Delete d) w2 of
                                    (Some e, w3) \<Rightarrow>
                                      Return
                                        (Some (Wrapped
                                           ''error waiting for Grafana Workspace Saml Configuration (%s) delete''
                                           e), w3)
                                  | (None, w3) \<Rightarrow> Return (None, w3)))))))"

section \<open>Vocabulary of the statements\<close>

text \<open>
  The response the next call will receive, and the world after a call with request \<open>q\<close>.
\<close>

definition next_response :: "('q, 'r) world \<Rightarrow> 'r" where
  "next_response w = fst (script w (length (calls w)))"

definition advance :: "'q \<Rightarrow> ('q, 'r) world \<Rightarrow> ('q, 'r) world" where
  "advance q w =
     w\<lparr>clock := clock w + snd (script w (length (calls w))),
       calls := calls w @ [(clock w, q, next_response w)]\<rparr>"

text \<open>Concrete inputs for the examples.\<close>

definition exampleSlot :: resourceSlotData where
  "exampleSlot =
     \<lparr>BotID = Known ''BOT1234567'', BotVersion = Known ''DRAFT'', Description = Null,
      ID = Known ''BOT1234567,DRAFT,INTENT1234,en_US,SLOT123456'',
      IntentID = Known ''INTENT1234'', LocaleID = Known ''en_US'',
      MultipleValuesSetting = Null, Name = Known ''city'', ObfuscationSetting = Null,
      Timeouts = Null, SlotTypeID = Known ''AMAZON.City'', ValueElicitationSettings = Null\<rparr>"

definition lexWorld :: "lex_response \<Rightarrow> lex_world" where
  "lexWorld r = \<lparr>clock = 0, script = (\<lambda>n. (r, 100)), calls = []\<rparr>"

text \<open>
  A SAML authentication one of whose dereferenced structures is nil.
\<close>

definition hasNilPart :: "saml_authentication \<Rightarrow> bool" where
  "hasNilPart a =
     (case Configuration a of
        None \<Rightarrow> True
      | Some c \<Rightarrow> RoleValues c = None \<or> AssertionAttributes c = None \<or> IdpMetadata c = None)"

definition exampleSaml :: grafana_data where
  "exampleSaml =
     \<lparr>Id_g = ''g-1234567890'', workspace_id = Some ''g-1234567890'', IsNewResource_g = True,
      admin_role_values = [''admin''], allowed_organizations = [],
      editor_role_values = [''editor''], email_assertion = [], groups_assertion = [],
      idp_metadata_url = ''https://idp.example.com/metadata'', idp_metadata_xml = [],
      login_assertion = [], login_validity_duration = 0, name_assertion = [],
      org_assertion = [], role_assertion = [], status = [],
      timeout_create = None, timeout_delete = None\<rparr>"

definition grafanaWorld :: "(nat \<Rightarrow> grafana_response \<times> nat) \<Rightarrow> grafana_world" where
  "grafanaWorld s = \<lparr>clock = 0, script = s, calls = []\<rparr>"

definition noAssertions :: saml_authentication where
  "noAssertions =
     \<lparr>Configuration =
        Some \<lparr>AllowedOrganizations = None, AssertionAttributes = None,
              IdpMetadata = Some \<lparr>Url = Some ''https://idp.example.com/metadata'', Xml = None\<rparr>,
              LoginValidityDuration = None,
              RoleValues = Some \<lparr>Admin = Some [''admin''], Editor = Some [''editor'']\<rparr>\<rparr>,
      Status = Some ''CONFIGURED''\<rparr>"

text \<open>
  The five parts the Create handler of the slot resource packs into the ID, and the
  requests \<open>findSlotByID\<close> issues for an ID (\<open>None\<close> if it panics).
\<close>

definition idPartsOf :: "SlotOutput \<Rightarrow> string list" where
  "idPartsOf out =
     [aws_ToString (out_BotId out), aws_ToString (out_BotVersion out),
      aws_ToString (out_IntentId out), aws_ToString (out_LocaleId out),
      aws_ToString (out_SlotId out)]"

definition describedBy :: "string \<Rightarrow> lex_world \<Rightarrow> lex_request list option" where
  "describedBy rid w =
     (case findSlotByID rid w of
        Panic \<Rightarrow> None
      | Return (r, w') \<Rightarrow> Some (drop (length (calls w)) (requests w')))"

definition exampleOut :: "string \<Rightarrow> SlotOutput" where
  "exampleOut botId =
     \<lparr>out_BotId = Some botId, out_BotVersion = Some ''DRAFT'', out_Description = None,
      out_IntentId = Some ''INTENT1234'', out_LocaleId = Some ''en_US'',
      out_MultipleValuesSetting = None, out_ObfuscationSetting = None,
      out_SlotId = Some ''SLOT123456'', out_SlotName = Some ''city'',
      out_SlotTypeId = Some ''AMAZON.City'', out_ValueElicitationSetting = None\<rparr>"

text \<open>
  A response is retryable when its error has the code \<open>ErrorCodeClientError\<close>.
  \<open>retryTrace expired input deadline new err\<close> describes the calls \<open>new\<close> of a retry loop
  that ended with \<open>err\<close>: there is at least one; each is an
  \<open>EnableOrganizationAdminAccount\<close> call with the same input, started before the deadline;
  every call but the last received a retryable error; and the result is fixed by the
  response to the last call: success if it carries no error, that error if it is not
  retryable, and if it is retryable (the time was used up) what \<open>expired\<close> makes of it.
\<close>

definition retryable :: "macie_response \<Rightarrow> bool" where
  "retryable r = ErrCodeEquals (lift_err (m_err r)) ErrorCodeClientError"

definition retryTrace ::
  "(error option \<Rightarrow> error) \<Rightarrow> EnableOrganizationAdminAccountInput \<Rightarrow> nat
     \<Rightarrow> (nat \<times> macie_request \<times> macie_response) list \<Rightarrow> error option \<Rightarrow> bool" where
  "retryTrace expired input deadline new err =
     (new \<noteq> [] \<and>
      (\<forall>c \<in> set new. fst c < deadline \<and> fst (snd c) = EnableOrganizationAdminAccount input) \<and>
      (\<forall>c \<in> set (butlast new). retryable (snd (snd c))) \<and>
      err = (case m_err (snd (snd (last new))) of
               None \<Rightarrow> None
             | Some e \<Rightarrow>
                 if retryable (snd (snd (last new))) then Some (expired (Some (AWSError e)))
                 else Some (AWSError e)))"

text \<open>
  The calls made between two worlds, and a world that continues another: same script, a
  later clock, more calls.
\<close>

definition newCalls :: "('q, 'r) world \<Rightarrow> ('q, 'r) world \<Rightarrow> (nat \<times> 'q \<times> 'r) list" where
  "newCalls w w' = drop (length (calls w)) (calls w')"

definition extends :: "('q, 'r) world \<Rightarrow> ('q, 'r) world \<Rightarrow> bool" where
  "extends w w' = (script w' = script w \<and> clock w \<le> clock w' \<and>
                   take (length (calls w)) (calls w') = calls w)"

text \<open>
  What a run of the retry loop with \<open>rem\<close> milliseconds left, \<open>rem\<close> positive, establishes.
\<close>

definition retryPhase ::
  "(error option \<Rightarrow> error) \<Rightarrow> EnableOrganizationAdminAccountInput \<Rightarrow> nat \<Rightarrow> macie_world
     \<Rightarrow> error option \<Rightarrow> macie_world \<Rightarrow> bool" where
  "retryPhase expired input rem w err w' =
     (extends w w' \<and> retryTrace expired input (clock w + rem) (newCalls w w') err \<and>
      (retryable (snd (snd (last (newCalls w w')))) \<longrightarrow> clock w + rem \<le> clock w') \<and>
      length (newCalls w w') * retryInterval < rem + retryInterval)"

text \<open>
  The call of \<open>retry.RetryContext\<close> in the Create handler, for a given retry function, and
  the test for an \<open>EnableOrganizationAdminAccount\<close> call.
\<close>

definition retried ::
  "(nat \<Rightarrow> (macie_world \<Rightarrow> RetryError option \<times> macie_world) \<Rightarrow> macie_world
      \<Rightarrow> error option \<times> macie_world)
     \<Rightarrow> string \<Rightarrow> ResourceData \<Rightarrow> macie_world \<Rightarrow> error option \<times> macie_world" where
  "retried retry uniqueId d w = retry (4 * time_Minute) (createRetryFunc (createInput uniqueId d)) w"

definition isEnable :: "nat \<times> macie_request \<times> macie_response \<Rightarrow> bool" where
  "isEnable c = (case fst (snd c) of EnableOrganizationAdminAccount i \<Rightarrow> True | _ \<Rightarrow> False)"

text \<open>
  Exchanges with Macie. In \<open>slowScript\<close> the first two calls fail with a client error and
  take two minutes each; in \<open>quickScript\<close> every call succeeds at once; \<open>fastScript3\<close> and
  \<open>slowScript3\<close> give the same response to each call, three client errors and then
  success, after one second and after two minutes.
\<close>

definition exampleAccount :: ResourceData where
  "exampleAccount = \<lparr>Id_m = [], admin_account_id = ''123456789012'', IsNewResource_m = True\<rparr>"

definition macieWorld :: "(nat \<Rightarrow> macie_response \<times> nat) \<Rightarrow> macie_world" where
  "macieWorld s = \<lparr>clock = 0, script = s, calls = []\<rparr>"

definition clientError :: macie_response where
  "clientError = \<lparr>m_err = Some (GenericAPIError ''ClientError'' ''try again''), m_pages = []\<rparr>"

definition listed :: macie_response where
  "listed = \<lparr>m_err = None, m_pages = [Some [Some \<lparr>AccountId = Some ''123456789012''\<rparr>]]\<rparr>"

definition slowScript :: "nat \<Rightarrow> macie_response \<times> nat" where
  "slowScript n = (if n < 2 then (clientError, 120000) else (listed, 1000))"

definition quickScript :: "nat \<Rightarrow> macie_response \<times> nat" where
  "quickScript n = (listed, 1000)"

definition fastScript3 :: "nat \<Rightarrow> macie_response \<times> nat" where
  "fastScript3 n = (if n < 3 then (clientError, 1000) else (listed, 1000))"

definition slowScript3 :: "nat \<Rightarrow> macie_response \<times> nat" where
  "slowScript3 n = (if n < 3 then (clientError, 120000) else (listed, 120000))"

text \<open>
  A request without its client token, and a world whose recorded requests have none.
\<close>

fun eraseToken :: "macie_request \<Rightarrow> macie_request" where
  "eraseToken (EnableOrganizationAdminAccount i) =
     EnableOrganizationAdminAccount (i\<lparr>ClientToken := []\<rparr>)"
| "eraseToken q = q"

definition eraseWorld :: "macie_world \<Rightarrow> macie_world" where
  "eraseWorld w = w\<lparr>calls := map (\<lambda>c. (fst c, eraseToken (fst (snd c)), snd (snd c))) (calls w)\<rparr>"

text \<open>
  The status the waiters read off a response of \<open>DescribeWorkspaceAuthentication\<close>, with
  the error of the read; \<open>reached target r\<close> holds when the response shows the awaited
  status. \<open>waitTrace\<close> describes the polls of a wait that succeeded: at least one, all for
  the same workspace, the last one showing the awaited status.
\<close>

definition samlStatus :: "grafana_response \<Rightarrow> string option \<times> error option" where
  "samlStatus r =
     (case g_err r of
        Some e \<Rightarrow>
          if ErrorCode e = Some ''ResourceNotFoundException'' then (None, None)
          else (None, Some (AWSError e))
      | None \<Rightarrow>
          (case g_saml r of
             None \<Rightarrow> (None, Some EmptyResultError)
           | Some a \<Rightarrow>
               if aws_ToString (Status a) = SamlConfigurationStatusNotConfigured then (None, None)
               else (Some (aws_ToString (Status a)), None)))"

definition reached :: "(string option \<Rightarrow> bool) \<Rightarrow> grafana_response \<Rightarrow> bool" where
  "reached target r = (snd (samlStatus r) = None \<and> target (fst (samlStatus r)))"

definition waitTrace ::
  "string \<Rightarrow> (string option \<Rightarrow> bool) \<Rightarrow> (nat \<times> grafana_request \<times> grafana_response) list \<Rightarrow> bool" where
  "waitTrace workspaceId target polls =
     (polls \<noteq> [] \<and>
      (\<forall>c \<in> set polls. fst (snd c) = DescribeWorkspaceAuthentication workspaceId) \<and>
      reached target (snd (snd (last polls))))"

text \<open>
  The calls that follow the first \<open>UpdateWorkspaceAuthentication\<close> call, and the two awaited
  statuses.
\<close>

definition isUpdate :: "nat \<times> grafana_request \<times> grafana_response \<Rightarrow> bool" where
  "isUpdate c = (case fst (snd c) of UpdateWorkspaceAuthentication i \<Rightarrow> True | _ \<Rightarrow> False)"

definition afterUpdate ::
  "(nat \<times> grafana_request \<times> grafana_response) list \<Rightarrow> (nat \<times> grafana_request \<times> grafana_response) list" where
  "afterUpdate cs = tl (dropWhile (\<lambda>c. \<not> isUpdate c) cs)"

definition configured :: "string option \<Rightarrow> bool" where
  "configured st = (st = Some SamlConfigurationStatusConfigured)"

definition gone :: "string option \<Rightarrow> bool" where
  "gone st = (st = None)"

text \<open>The name of the operation a Lex request calls.\<close>

definition requestName :: "lex_request \<Rightarrow> string" where
  "requestName q =
     (case q of CreateSlot i \<Rightarrow> ''CreateSlot'' | UpdateSlot i \<Rightarrow> ''UpdateSlot''
      | DeleteSlot k \<Rightarrow> ''DeleteSlot'' | DescribeSlot k \<Rightarrow> ''DescribeSlot'')"

text \<open>
  Two exchanges with Grafana: an upsert whose configuration shows as configured at the
  second poll, and a delete whose configuration is gone at the second poll.
\<close>

definition workspaceResp :: grafana_response where
  "workspaceResp =
     \<lparr>g_err = None,
      g_workspace = Some \<lparr>Authentication = Some \<lparr>Providers = Some [''SAML'']\<rparr>\<rparr>,
      g_saml = None\<rparr>"

definition okResp :: grafana_response where
  "okResp = \<lparr>g_err = None, g_workspace = None, g_saml = None\<rparr>"

definition notConfiguredResp :: grafana_response where
  "notConfiguredResp =
     \<lparr>g_err = None, g_workspace = None,
      g_saml = Some \<lparr>Configuration = None, Status = Some ''NOT_CONFIGURED''\<rparr>\<rparr>"

definition fullSaml :: saml_authentication where
  "fullSaml =
     \<lparr>Configuration =
        Some \<lparr>AllowedOrganizations = None,
              AssertionAttributes = Some (emptyAssertionAttributes\<lparr>Email := Some ''mail''\<rparr>),
              IdpMetadata = Some \<lparr>Url = Some ''https://idp.example.com/metadata'', Xml = None\<rparr>,
              LoginValidityDuration = None,
              RoleValues = Some \<lparr>Admin = Some [''admin''], Editor = Some [''editor'']\<rparr>\<rparr>,
      Status = Some ''CONFIGURED''\<rparr>"

definition configuredResp :: grafana_response where
  "configuredResp = \<lparr>g_err = None, g_workspace = None, g_saml = Some fullSaml\<rparr>"

definition upsertScript :: "nat \<Rightarrow> grafana_response \<times> nat" where
  "upsertScript n =
     (if n = 0 then (workspaceResp, 200) else if n = 1 then (okResp, 300)
      else if n = 2 then (notConfiguredResp, 100) else (configuredResp, 100))"

definition deleteScript :: "nat \<Rightarrow> grafana_response \<times> nat" where
  "deleteScript n =
     (if n = 0 then (workspaceResp, 200) else if n = 1 then (okResp, 300)
      else if n = 2 then (configuredResp, 100) else (notConfiguredResp, 100))"

definition upsertEnd :: grafana_world where
  "upsertEnd =
     \<lparr>clock = 1300, script = upsertScript,
      calls =
        [(0, DescribeWorkspace ''g-1234567890'', workspaceResp),
         (200, UpdateWorkspaceAuthentication
                 \<lparr>AuthenticationProviders = Some [''SAML''],
                  SamlConfiguration = Some (upsertSamlConfiguration exampleSaml),
                  WorkspaceId = Some ''g-1234567890''\<rparr>, okResp),
         (500, DescribeWorkspaceAuthentication ''g-1234567890'', notConfiguredResp),
         (1100, DescribeWorkspaceAuthentication ''g-1234567890'', configuredResp),
         (1200, DescribeWorkspaceAuthentication ''g-1234567890'', configuredResp)]\<rparr>"

definition deleteEnd :: grafana_world where
  "deleteEnd =
     \<lparr>clock = 1200, script = deleteScript,
      calls =
        [(0, DescribeWorkspace ''g-1234567890'', workspaceResp),
         (200, UpdateWorkspaceAuthentication
                 \<lparr>AuthenticationProviders = Some [''SAML''], SamlConfiguration = None,
                  WorkspaceId = Some ''g-1234567890''\<rparr>, okResp),
         (500, DescribeWorkspaceAuthentication ''g-1234567890'', configuredResp),
         (1100, DescribeWorkspaceAuthentication ''g-1234567890'', notConfiguredResp)]\<rparr>"

section \<open>Calls through the connection\<close>

lemma aws_call_eq: "aws_call q w = (next_response w, advance q w)"
  by (simp add: aws_call_def next_response_def advance_def Let_def)

lemma advance_simps [simp]:
  "calls (advance q w) = calls w @ [(clock w, q, next_response w)]"
  "clock (advance q w) = clock w + snd (script w (length (calls w)))"
  "script (advance q w) = script w"
  by (simp_all add: advance_def)

section \<open>Macie: deleting what is already gone\<close>

text \<open>
  C8: when \<open>DisableOrganizationAdminAccount\<close> fails with a \<open>ResourceNotFoundException\<close>, or
  with an \<open>AccessDeniedException\<close> whose message contains "Macie is not enabled", the Delete
  handler returns no diagnostics; every other error of the call yields one error
  diagnostic, and a call without error yields none.
\<close>

theorem Delete_absent_is_success:
  "fst (resourceOrganizationAdminAccountDelete d w) =
     (case m_err (next_response w) of
        None \<Rightarrow> []
      | Some e \<Rightarrow>
          if (\<exists>m. e = ResourceNotFoundException m) \<or>
             (\<exists>m. e = GenericAPIError ''AccessDeniedException'' m \<and> Contains m ''Macie is not enabled'')
          then []
          else [ErrorDiag ''deleting Macie OrganizationAdminAccount (%s): %s'' [Id_m d] (AWSError e)])"
proof (cases "m_err (next_response w)")
  case None
  then show ?thesis
    by (simp add: resourceOrganizationAdminAccountDelete_def conn_DisableOrganizationAdminAccount_def
        aws_call_eq lift_err_def)
next
  case (Some e)
  then show ?thesis
    by (cases e)
       (simp_all add: resourceOrganizationAdminAccountDelete_def conn_DisableOrganizationAdminAccount_def
        aws_call_eq lift_err_def ErrMessageContains_def AppendErrorf_def
        ErrCodeAccessDeniedException_def)
qed

theorem Delete_absent_is_success_witness:
  "fst (resourceOrganizationAdminAccountDelete \<lparr>Id_m = ''123456789012'', admin_account_id = ''123456789012'', IsNewResource_m = False\<rparr>
      \<lparr>clock = 0, script = (\<lambda>n. (\<lparr>m_err = Some (GenericAPIError ''AccessDeniedException'' ''Macie is not enabled''), m_pages = []\<rparr>, 100)), calls = []\<rparr>) = []"
  using Delete_absent_is_success [of "\<lparr>Id_m = ''123456789012'', admin_account_id = ''123456789012'', IsNewResource_m = False\<rparr>"
     "\<lparr>clock = 0, script = (\<lambda>n. (\<lparr>m_err = Some (GenericAPIError ''AccessDeniedException'' ''Macie is not enabled''), m_pages = []\<rparr>, 100)), calls = []\<rparr>"]
  by (simp add: next_response_def)

section \<open>The handlers a resource registers\<close>

text \<open>
  C4, as stated: every resource registers a Create, a Read, an Update and a Delete handler.
  The Macie organization admin account registers no Update handler.
\<close>

theorem Macie_registers_no_Update:
  "Update ResourceOrganizationAdminAccount = None"
  by (simp add: ResourceOrganizationAdminAccount_def)

text \<open>
  C4, amended: each of the three resources registers a Create, a Read and a Delete handler;
  the Lex V2 slot and the Grafana workspace SAML configuration register an Update handler
  as well, the Macie organization admin account registers none.
\<close>

theorem registered_handlers:
  "Create ResourceOrganizationAdminAccount = Some resourceOrganizationAdminAccountCreate_h \<and>
   Read ResourceOrganizationAdminAccount = Some resourceOrganizationAdminAccountRead_h \<and>
   Delete ResourceOrganizationAdminAccount = Some resourceOrganizationAdminAccountDelete_h \<and>
   Update ResourceOrganizationAdminAccount = None \<and>
   Create resourceSlot = Some resourceSlot_Create_h \<and>
   Read resourceSlot = Some resourceSlot_Read_h \<and>
   Update resourceSlot = Some resourceSlot_Update_h \<and>
   Delete resourceSlot = Some resourceSlot_Delete_h \<and>
   Create ResourceWorkspaceSamlConfiguration = Some resourceWorkspaceSamlConfigurationUpsert_h \<and>
   Read ResourceWorkspaceSamlConfiguration = Some resourceWorkspaceSamlConfigurationRead_h \<and>
   Update ResourceWorkspaceSamlConfiguration = Some resourceWorkspaceSamlConfigurationUpsert_h \<and>
   Delete ResourceWorkspaceSamlConfiguration = Some resourceWorkspaceSamlConfigurationDelete_h"
  by (simp add: ResourceOrganizationAdminAccount_def resourceSlot_def
      ResourceWorkspaceSamlConfiguration_def)

lemma conn_lex_eqs:
  "conn_UpdateSlot i w = ((l_out (next_response w), lift_err (l_err (next_response w))), advance (UpdateSlot i) w)"
  "conn_CreateSlot i w = ((l_out (next_response w), lift_err (l_err (next_response w))), advance (CreateSlot i) w)"
  "conn_DescribeSlot k w = ((l_out (next_response w), lift_err (l_err (next_response w))), advance (DescribeSlot k) w)"
  "conn_DeleteSlot k w = (lift_err (l_err (next_response w)), advance (DeleteSlot k) w)"
  by (simp_all add: conn_UpdateSlot_def conn_CreateSlot_def conn_DescribeSlot_def conn_DeleteSlot_def aws_call_eq)

section \<open>Lex V2 slot: Delete\<close>

text \<open>
  C3: the Delete handler parses the composite ID and sends its five components in the
  fields of the \<open>DeleteSlotInput\<close>. The handler does not: for the stored ID
  \<open>BOT1234567,DRAFT,INTENT1234,en_US,SLOT123456\<close> each of the five fields of the request
  holds the whole ID.
\<close>

theorem Delete_sends_whole_id:
  "requests (snd (resourceSlot_Delete exampleSlot (lexWorld \<lparr>l_err = None, l_out = None\<rparr>))) =
     [DeleteSlot \<lparr>BotId = Some ''BOT1234567,DRAFT,INTENT1234,en_US,SLOT123456'',
                  BotVersion_k = Some ''BOT1234567,DRAFT,INTENT1234,en_US,SLOT123456'',
                  IntentId = Some ''BOT1234567,DRAFT,INTENT1234,en_US,SLOT123456'',
                  LocaleId = Some ''BOT1234567,DRAFT,INTENT1234,en_US,SLOT123456'',
                  SlotId = Some ''BOT1234567,DRAFT,INTENT1234,en_US,SLOT123456''\<rparr>]"
  by (simp add: resourceSlot_Delete_def conn_lex_eqs lift_err_def requests_def exampleSlot_def
      lexWorld_def ValueString_def next_response_def)

section \<open>Lex V2 slot: Update\<close>

text \<open>
  C9, amended: the Update handler calls \<open>UpdateSlot\<close> if and only if plan and state differ
  in at least one of description, name, slot_type_id and obfuscation_setting and the
  expansion of the plan into the request reports no error, so a plan that changes only
  other attributes makes no AWS call and has its values written to the state. When one of
  the four attributes differs, the handler returns early, with an error diagnostic and
  the state at its prior values, in three cases: the expansion reports an error,
  \<open>UpdateSlot\<close> returns an error, or \<open>UpdateSlot\<close> returns an empty output; in every other
  case the planned values are written to the state, without diagnostics. This holds for
  every expansion function.
\<close>

theorem Update_calls_and_state:
  "slotHasChanges plan state =
     (Description plan \<noteq> Description state \<or> Name plan \<noteq> Name state \<or>
      SlotTypeID plan \<noteq> SlotTypeID state \<or> ObfuscationSetting plan \<noteq> ObfuscationSetting state) \<and>
   requests (snd (resourceSlot_Update expand plan state w)) =
     (if slotHasChanges plan state \<and> \<not> HasError (fst (expand plan emptySlotInput))
      then requests w @ [UpdateSlot (snd (expand plan emptySlotInput))]
      else requests w) \<and>
   (if slotHasChanges plan state \<and>
       (HasError (fst (expand plan emptySlotInput)) \<or>
        l_err (next_response w) \<noteq> None \<or> l_out (next_response w) = None)
    then State (fst (resourceSlot_Update expand plan state w)) = Some state \<and>
         Diagnostics (fst (resourceSlot_Update expand plan state w)) \<noteq> []
    else State (fst (resourceSlot_Update expand plan state w)) = Some plan \<and>
         Diagnostics (fst (resourceSlot_Update expand plan state w)) = [])"
proof (intro conjI)
  show "slotHasChanges plan state =
     (Description plan \<noteq> Description state \<or> Name plan \<noteq> Name state \<or>
      SlotTypeID plan \<noteq> SlotTypeID state \<or> ObfuscationSetting plan \<noteq> ObfuscationSetting state)"
    by (auto simp: slotHasChanges_def)
next
  show "requests (snd (resourceSlot_Update expand plan state w)) =
     (if slotHasChanges plan state \<and> \<not> HasError (fst (expand plan emptySlotInput))
      then requests w @ [UpdateSlot (snd (expand plan emptySlotInput))]
      else requests w)"
    by (cases "expand plan emptySlotInput")
       (simp add: resourceSlot_Update_def conn_lex_eqs Append_def HasError_def
        AddError_def requests_def Let_def split: option.splits)
next
  show "if slotHasChanges plan state \<and>
       (HasError (fst (expand plan emptySlotInput)) \<or>
        l_err (next_response w) \<noteq> None \<or> l_out (next_response w) = None)
    then State (fst (resourceSlot_Update expand plan state w)) = Some state \<and>
         Diagnostics (fst (resourceSlot_Update expand plan state w)) \<noteq> []
    else State (fst (resourceSlot_Update expand plan state w)) = Some plan \<and>
         Diagnostics (fst (resourceSlot_Update expand plan state w)) = []"
    by (cases "expand plan emptySlotInput")
       (auto simp: resourceSlot_Update_def conn_lex_eqs Append_def HasError_def
        AddError_def Let_def lift_err_def split: option.splits)
qed

text \<open>
  C9, as stated: in all cases the planned values are written to the state. When the plan
  changes the description and \<open>UpdateSlot\<close> fails, the state keeps the prior values.
\<close>

theorem Update_error_keeps_state:
  "State (fst (resourceSlot_Update flex_Expand (exampleSlot\<lparr>Description := Known ''the city''\<rparr>)
      exampleSlot
      (lexWorld \<lparr>l_err = Some (GenericAPIError ''ConflictException'' ''busy''), l_out = None\<rparr>)))
     = Some exampleSlot \<and>
   Some exampleSlot \<noteq> Some (exampleSlot\<lparr>Description := Known ''the city''\<rparr>)"
  by (simp add: resourceSlot_Update_def conn_lex_eqs flex_Expand_def Append_def HasError_def
        AddError_def Let_def lift_err_def slotHasChanges_def exampleSlot_def lexWorld_def next_response_def)

theorem Update_calls_and_state_witness:
  "requests (snd (resourceSlot_Update flex_Expand
      (exampleSlot\<lparr>MultipleValuesSetting := Known [MultipleValuesSettingData (Known True)]\<rparr>)
      exampleSlot (lexWorld \<lparr>l_err = None, l_out = None\<rparr>))) = [] \<and>
   State (fst (resourceSlot_Update flex_Expand
      (exampleSlot\<lparr>MultipleValuesSetting := Known [MultipleValuesSettingData (Known True)]\<rparr>)
      exampleSlot (lexWorld \<lparr>l_err = None, l_out = None\<rparr>))) =
     Some (exampleSlot\<lparr>MultipleValuesSetting := Known [MultipleValuesSettingData (Known True)]\<rparr>) \<and>
   State (fst (resourceSlot_Update (\<lambda>plan input. ([ErrorDiag ''expanding'' [] EmptyOutput], input))
      (exampleSlot\<lparr>Description := Known ''the city''\<rparr>) exampleSlot
      (lexWorld \<lparr>l_err = None, l_out = None\<rparr>))) = Some exampleSlot \<and>
   requests (snd (resourceSlot_Update (\<lambda>plan input. ([ErrorDiag ''expanding'' [] EmptyOutput], input))
      (exampleSlot\<lparr>Description := Known ''the city''\<rparr>) exampleSlot
      (lexWorld \<lparr>l_err = None, l_out = None\<rparr>))) = []"
  using Update_calls_and_state [of
      "exampleSlot\<lparr>MultipleValuesSetting := Known [MultipleValuesSettingData (Known True)]\<rparr>"
      exampleSlot flex_Expand "lexWorld \<lparr>l_err = None, l_out = None\<rparr>"]
    Update_calls_and_state [of "exampleSlot\<lparr>Description := Known ''the city''\<rparr>" exampleSlot
      "\<lambda>plan input. ([ErrorDiag ''expanding'' [] EmptyOutput], input)"
      "lexWorld \<lparr>l_err = None, l_out = None\<rparr>"]
  by (simp add: exampleSlot_def lexWorld_def requests_def slotHasChanges_def HasError_def)

lemma Find_eqs:
  "FindSamlConfigurationByID i w =
     ((case g_err (next_response w) of
         Some e \<Rightarrow> if ErrCodeEquals (Some (AWSError e)) ''ResourceNotFoundException''
                   then (None, Some NotFoundError) else (None, Some (AWSError e))
       | None \<Rightarrow> (case g_saml (next_response w) of
                    None \<Rightarrow> (None, Some EmptyResultError)
                  | Some saml \<Rightarrow>
                      if aws_ToString (Status saml) = SamlConfigurationStatusNotConfigured
                      then (None, Some NotFoundError) else (Some saml, None))),
      advance (DescribeWorkspaceAuthentication i) w)"
  by (simp add: FindSamlConfigurationByID_def aws_call_eq split: option.splits)

section \<open>Grafana: Read and nil pointers\<close>

lemma Read_found:
  assumes "g_err (next_response w) = None" "g_saml (next_response w) = Some a"
    "aws_ToString (Status a) \<noteq> SamlConfigurationStatusNotConfigured"
  shows "(resourceWorkspaceSamlConfigurationRead d w = Panic) = hasNilPart a"
  using assms
  by (simp add: resourceWorkspaceSamlConfigurationRead_def Find_eqs NotFound_def hasNilPart_def
      split: option.splits)

text \<open>
  C10: the Read handler dereferences \<open>RoleValues\<close>, \<open>AssertionAttributes\<close> and \<open>IdpMetadata\<close>
  of the configuration without a nil check. On a response that \<open>FindSamlConfigurationByID\<close>
  hands back without error, the handler panics exactly when the configuration or one of
  the three structures is nil; and such a response is reachable: the configuration the
  Upsert handler itself sends never has an \<open>IdpMetadata\<close>, so Read panics on it.
\<close>

theorem Read_dereferences_nil:
  "(g_err (next_response w) = None \<and> g_saml (next_response w) = Some a \<and>
    aws_ToString (Status a) \<noteq> SamlConfigurationStatusNotConfigured \<longrightarrow>
      (resourceWorkspaceSamlConfigurationRead d w = Panic) =
      (case Configuration a of
         None \<Rightarrow> True
       | Some c \<Rightarrow> RoleValues c = None \<or> AssertionAttributes c = None \<or> IdpMetadata c = None)) \<and>
   (g_err (next_response w) = None \<and>
    g_saml (next_response w) =
      Some \<lparr>Configuration = Some (upsertSamlConfiguration d'),
            Status = Some SamlConfigurationStatusConfigured\<rparr> \<longrightarrow>
      resourceWorkspaceSamlConfigurationRead d w = Panic)"
proof (intro conjI impI)
  assume "g_err (next_response w) = None \<and> g_saml (next_response w) = Some a \<and>
    aws_ToString (Status a) \<noteq> SamlConfigurationStatusNotConfigured"
  then show "(resourceWorkspaceSamlConfigurationRead d w = Panic) =
      (case Configuration a of
         None \<Rightarrow> True
       | Some c \<Rightarrow> RoleValues c = None \<or> AssertionAttributes c = None \<or> IdpMetadata c = None)"
    using Read_found [of w a d] by (simp add: hasNilPart_def)
next
  assume h: "g_err (next_response w) = None \<and>
    g_saml (next_response w) =
      Some \<lparr>Configuration = Some (upsertSamlConfiguration d'),
            Status = Some SamlConfigurationStatusConfigured\<rparr>"
  have "hasNilPart \<lparr>Configuration = Some (upsertSamlConfiguration d'),
            Status = Some SamlConfigurationStatusConfigured\<rparr>"
    by (simp add: hasNilPart_def upsertSamlConfiguration_def)
  with h show "resourceWorkspaceSamlConfigurationRead d w = Panic"
    using Read_found [of w "\<lparr>Configuration = Some (upsertSamlConfiguration d'),
            Status = Some SamlConfigurationStatusConfigured\<rparr>" d]
    by (simp add: aws_ToString_def SamlConfigurationStatusConfigured_def
        SamlConfigurationStatusNotConfigured_def)
qed

theorem Read_dereferences_nil_witness:
  "resourceWorkspaceSamlConfigurationRead exampleSaml
     (grafanaWorld (\<lambda>n. (\<lparr>g_err = None, g_workspace = None, g_saml = Some noAssertions\<rparr>, 100))) = Panic"
  using Read_dereferences_nil [of "grafanaWorld (\<lambda>n. (\<lparr>g_err = None, g_workspace = None, g_saml = Some noAssertions\<rparr>, 100))"
      noAssertions exampleSaml exampleSaml]
  by (simp add: grafanaWorld_def next_response_def noAssertions_def aws_ToString_def
      SamlConfigurationStatusNotConfigured_def)

section \<open>Lex V2 slot: composite IDs\<close>

lemma Split_not_Nil: "Split s sep \<noteq> []"
  by (induction s) (auto split: list.splits)

lemma Split_no_sep: "sep \<notin> set p \<Longrightarrow> Split p sep = [p]"
  by (induction p) auto

lemma Split_append_sep:
  "sep \<notin> set p \<Longrightarrow> Split (p @ sep # rest) sep = p # Split rest sep"
  by (induction p) (auto split: list.splits)

lemma Split_Join:
  "ps \<noteq> [] \<Longrightarrow> \<forall>p \<in> set ps. sep \<notin> set p \<Longrightarrow> Split (Join ps sep) sep = ps"
proof (induction ps sep rule: Join.induct)
  case (1 sep)
  then show ?case by simp
next
  case (2 p sep)
  then show ?case by (simp add: Split_no_sep)
next
  case (3 p q ps sep)
  then show ?case by (simp add: Split_append_sep)
qed

lemma Expand_Flatten:
  assumes "FlattenResourceId parts n allowEmpty = Inr rid"
    and "\<forall>p \<in> set parts. ResourceIdSeparator \<notin> set p"
  shows "ExpandResourceId rid n allowEmpty = Inr parts"
proof -
  from assms(1) have len: "1 < length parts" "length parts = n"
    and empty: "allowEmpty \<or> (\<forall>p \<in> set parts. p \<noteq> [])"
    and rid: "rid = Join parts ResourceIdSeparator"
    by (auto simp: FlattenResourceId_def split: if_splits)
  from len have "parts \<noteq> []" by auto
  with assms(2) have "Split rid ResourceIdSeparator = parts"
    unfolding rid by (simp add: Split_Join)
  with len empty show ?thesis
    by (auto simp: ExpandResourceId_def Let_def)
qed

lemma Create_ok:
  assumes "l_err (next_response w) = None" "l_out (next_response w) = Some out"
    and "FlattenResourceId (idPartsOf out) slotIDPartCount False = Inr rid"
  shows "map_option ID (State (fst (resourceSlot_Create plan w))) = Some (StringValue rid)"
  using assms
  by (simp add: resourceSlot_Create_def resourceSlot_Create_with_def conn_lex_eqs flex_Expand_def
      flex_Flatten_def Append_def HasError_def lift_err_def Let_def idPartsOf_def)

lemma Flatten_ok:
  assumes "\<forall>p \<in> set (idPartsOf out). p \<noteq> []"
  shows "FlattenResourceId (idPartsOf out) slotIDPartCount False =
           Inr (Join (idPartsOf out) ResourceIdSeparator)"
  using assms by (auto simp: FlattenResourceId_def slotIDPartCount_def idPartsOf_def)

lemma find_requests:
  assumes "ExpandResourceId rid slotIDPartCount False = Inr [p0, p1, p2, p3, p4]"
  shows "describedBy rid w =
           Some [DescribeSlot \<lparr>BotId = Some p0, BotVersion_k = Some p1, IntentId = Some p2,
                               LocaleId = Some p3, SlotId = Some p4\<rparr>]"
  using assms
  by (simp add: describedBy_def findSlotByID_def conn_lex_eqs Let_def requests_def
      split: option.splits)

text \<open>
  C2, amended: for every created slot whose five parts \<open>BotId\<close>, \<open>BotVersion\<close>, \<open>IntentId\<close>,
  \<open>LocaleId\<close>, \<open>SlotId\<close> are non-empty and free of the separator, the Create handler stores
  as ID the five parts, in that order, packed by \<open>FlattenResourceId\<close> with part count 5;
  \<open>ExpandResourceId\<close> with part count 5 parses that ID back into the same five parts in the
  same order, and \<open>findSlotByID\<close> sends them in the fields of its \<open>DescribeSlotInput\<close>.
\<close>

theorem Create_id_round_trip:
  assumes "l_err (next_response w) = None" and "l_out (next_response w) = Some out"
    and "\<forall>p \<in> set (idPartsOf out). p \<noteq> [] \<and> ResourceIdSeparator \<notin> set p"
  shows "map_option ID (State (fst (resourceSlot_Create plan w))) =
           Some (StringValue (Join (idPartsOf out) ResourceIdSeparator)) \<and>
         FlattenResourceId (idPartsOf out) slotIDPartCount False =
           Inr (Join (idPartsOf out) ResourceIdSeparator) \<and>
         ExpandResourceId (Join (idPartsOf out) ResourceIdSeparator) slotIDPartCount False =
           Inr (idPartsOf out) \<and>
         describedBy (Join (idPartsOf out) ResourceIdSeparator) w' =
           Some [DescribeSlot \<lparr>BotId = Some (aws_ToString (out_BotId out)),
                               BotVersion_k = Some (aws_ToString (out_BotVersion out)),
                               IntentId = Some (aws_ToString (out_IntentId out)),
                               LocaleId = Some (aws_ToString (out_LocaleId out)),
                               SlotId = Some (aws_ToString (out_SlotId out))\<rparr>]"
proof -
  from assms(3) have fl: "FlattenResourceId (idPartsOf out) slotIDPartCount False =
           Inr (Join (idPartsOf out) ResourceIdSeparator)"
    by (simp add: Flatten_ok)
  from assms(3) have "\<forall>p \<in> set (idPartsOf out). ResourceIdSeparator \<notin> set p" by simp
  with fl have ex: "ExpandResourceId (Join (idPartsOf out) ResourceIdSeparator) slotIDPartCount False =
           Inr (idPartsOf out)"
    by (rule Expand_Flatten)
  from ex have "describedBy (Join (idPartsOf out) ResourceIdSeparator) w' =
           Some [DescribeSlot \<lparr>BotId = Some (aws_ToString (out_BotId out)),
                               BotVersion_k = Some (aws_ToString (out_BotVersion out)),
                               IntentId = Some (aws_ToString (out_IntentId out)),
                               LocaleId = Some (aws_ToString (out_LocaleId out)),
                               SlotId = Some (aws_ToString (out_SlotId out))\<rparr>]"
    unfolding idPartsOf_def by (rule find_requests)
  with fl ex Create_ok [OF assms(1,2) fl] show ?thesis by simp
qed

lemma exampleParts: "idPartsOf (exampleOut botId) = [botId, ''DRAFT'', ''INTENT1234'', ''en_US'', ''SLOT123456'']"
  by (simp add: idPartsOf_def exampleOut_def aws_ToString_def)

theorem Create_id_round_trip_witness:
  "map_option ID (State (fst (resourceSlot_Create exampleSlot
       (lexWorld \<lparr>l_err = None, l_out = Some (exampleOut ''BOT1234567'')\<rparr>)))) =
     Some (Known ''BOT1234567,DRAFT,INTENT1234,en_US,SLOT123456'') \<and>
   ExpandResourceId ''BOT1234567,DRAFT,INTENT1234,en_US,SLOT123456'' slotIDPartCount False =
     Inr [''BOT1234567'', ''DRAFT'', ''INTENT1234'', ''en_US'', ''SLOT123456'']"
  using Create_id_round_trip [of "lexWorld \<lparr>l_err = None, l_out = Some (exampleOut ''BOT1234567'')\<rparr>"
      "exampleOut ''BOT1234567''" exampleSlot "lexWorld \<lparr>l_err = None, l_out = None\<rparr>"]
  by (simp add: exampleParts lexWorld_def next_response_def ResourceIdSeparator_def StringValue_def)

text \<open>
  C2, as stated: every ID the Create handler produces is parsed back by
  \<open>ExpandResourceId\<close> into the five parts. For a created slot whose bot ID holds the
  separator, Create stores an ID that \<open>ExpandResourceId\<close> refuses.
\<close>

theorem Create_id_with_separator:
  "map_option ID (State (fst (resourceSlot_Create exampleSlot
       (lexWorld \<lparr>l_err = None, l_out = Some (exampleOut ''BOT,1'')\<rparr>)))) =
     Some (Known ''BOT,1,DRAFT,INTENT1234,en_US,SLOT123456'') \<and>
   ExpandResourceId ''BOT,1,DRAFT,INTENT1234,en_US,SLOT123456'' slotIDPartCount False =
     Inl (IDFormatError ''unexpected part count'')"
proof
  have "FlattenResourceId (idPartsOf (exampleOut ''BOT,1'')) slotIDPartCount False =
          Inr ''BOT,1,DRAFT,INTENT1234,en_US,SLOT123456''"
    by (simp add: exampleParts FlattenResourceId_def slotIDPartCount_def ResourceIdSeparator_def)
  then show "map_option ID (State (fst (resourceSlot_Create exampleSlot
       (lexWorld \<lparr>l_err = None, l_out = Some (exampleOut ''BOT,1'')\<rparr>)))) =
     Some (Known ''BOT,1,DRAFT,INTENT1234,en_US,SLOT123456'')"
    using Create_ok [of "lexWorld \<lparr>l_err = None, l_out = Some (exampleOut ''BOT,1'')\<rparr>" "exampleOut ''BOT,1''"
          "''BOT,1,DRAFT,INTENT1234,en_US,SLOT123456''" exampleSlot]
    by (simp add: lexWorld_def next_response_def StringValue_def)
  show "ExpandResourceId ''BOT,1,DRAFT,INTENT1234,en_US,SLOT123456'' slotIDPartCount False =
     Inl (IDFormatError ''unexpected part count'')"
    by (simp add: ExpandResourceId_def slotIDPartCount_def ResourceIdSeparator_def Let_def)
qed

section \<open>The retry loop of the Macie Create handler\<close>

declare retry_loop.simps [simp del]

declare wait_loop.simps [simp del]

lemma extends_calls: "extends w w' \<Longrightarrow> calls w' = calls w @ newCalls w w'"
proof -
  assume "extends w w'"
  then have "take (length (calls w)) (calls w') = calls w" by (simp add: extends_def)
  then have "take (length (calls w)) (calls w') @ drop (length (calls w)) (calls w') =
             calls w @ drop (length (calls w)) (calls w')" by simp
  then show ?thesis by (simp add: newCalls_def)
qed

lemma extendsI:
  "script w' = script w \<Longrightarrow> clock w \<le> clock w' \<Longrightarrow> calls w' = calls w @ new \<Longrightarrow> extends w w'"
  by (simp add: extends_def)

lemma extends_refl [simp]: "extends w w"
  by (simp add: extends_def)

lemma extends_trans:
  assumes "extends w w'" "extends w' w''"
  shows "extends w w''"
proof (rule extendsI)
  from assms show "script w'' = script w" by (simp add: extends_def)
  from assms show "clock w \<le> clock w''" by (simp add: extends_def)
  from extends_calls [OF assms(1)] extends_calls [OF assms(2)]
  show "calls w'' = calls w @ (newCalls w w' @ newCalls w' w'')" by simp
qed

lemma extends_advance [simp]: "extends w (advance q w)"
  by (simp add: extends_def)

lemma extends_sleep [simp]: "extends w (sleep t w)"
  by (simp add: extends_def sleep_def)

lemma sleep_simps [simp]:
  "calls (sleep t w) = calls w" "clock (sleep t w) = clock w + t" "script (sleep t w) = script w"
  by (simp_all add: sleep_def)

lemma next_response_sleep [simp]: "next_response (sleep t w) = next_response w"
  by (simp add: next_response_def)

lemma newCalls_self [simp]: "newCalls w w = []"
  by (simp add: newCalls_def)

lemma newCalls_append:
  assumes "extends w w'" "extends w' w''"
  shows "newCalls w w'' = newCalls w w' @ newCalls w' w''"
proof -
  from extends_calls [OF assms(1)] extends_calls [OF assms(2)]
  have "calls w'' = calls w @ (newCalls w w' @ newCalls w' w'')" by simp
  then have "drop (length (calls w)) (calls w'') = newCalls w w' @ newCalls w' w''"
    by simp
  then show ?thesis by (simp add: newCalls_def)
qed

lemma newCalls_advance [simp]: "newCalls w (advance q w) = [(clock w, q, next_response w)]"
  by (simp add: newCalls_def)

lemma newCalls_sleep [simp]: "newCalls w (sleep t w') = newCalls w w'"
  by (simp add: newCalls_def)

lemma conn_macie_eqs:
  "conn_EnableOrganizationAdminAccount i w =
     (lift_err (m_err (next_response w)), advance (EnableOrganizationAdminAccount i) w)"
  "conn_DisableOrganizationAdminAccount a w =
     (lift_err (m_err (next_response w)), advance (DisableOrganizationAdminAccount a) w)"
  "GetOrganizationAdminAccount a w =
     (pages_loop (m_pages (next_response w)) (m_err (next_response w)) a None,
      advance ListOrganizationAdminAccounts w)"
  by (simp_all add: conn_EnableOrganizationAdminAccount_def conn_DisableOrganizationAdminAccount_def
      GetOrganizationAdminAccount_def aws_call_eq)

lemma createRetryFunc_eq:
  "createRetryFunc input w =
     ((case m_err (next_response w) of
         None \<Rightarrow> None
       | Some e \<Rightarrow> Some \<lparr>Err = AWSError e, Retryable = retryable (next_response w)\<rparr>),
      advance (EnableOrganizationAdminAccount input) w)"
  by (simp add: createRetryFunc_def conn_macie_eqs lift_err_def retryable_def RetryableError_def
      NonRetryableError_def split: option.splits)

lemma retry_step:
  "retry_loop expired rem (createRetryFunc input) lastErr w =
     (if rem = 0 then (Some (expired lastErr), w)
      else (case m_err (next_response w) of
              None \<Rightarrow> (None, advance (EnableOrganizationAdminAccount input) w)
            | Some e \<Rightarrow>
                if retryable (next_response w)
                then retry_loop expired (rem - (retryInterval + snd (script w (length (calls w)))))
                       (createRetryFunc input) (Some (AWSError e))
                       (sleep retryInterval (advance (EnableOrganizationAdminAccount input) w))
                else (Some (AWSError e), advance (EnableOrganizationAdminAccount input) w)))"
  by (subst retry_loop.simps) (simp add: createRetryFunc_eq split: option.splits)

lemma retryInterval_pos: "0 < retryInterval"
  by (simp add: retryInterval_def time_Millisecond_def)

lemma retryPhase_success:
  "0 < rem \<Longrightarrow> m_err (next_response w) = None \<Longrightarrow>
   retryPhase expired input rem w None (advance (EnableOrganizationAdminAccount input) w)"
  by (simp add: retryPhase_def retryTrace_def retryable_def lift_err_def)

lemma retryPhase_fatal:
  "0 < rem \<Longrightarrow> m_err (next_response w) = Some e \<Longrightarrow> \<not> retryable (next_response w) \<Longrightarrow>
   retryPhase expired input rem w (Some (AWSError e)) (advance (EnableOrganizationAdminAccount input) w)"
  by (simp add: retryPhase_def retryTrace_def)

lemma retryPhase_expired:
  assumes "0 < rem" "m_err (next_response w) = Some e" "retryable (next_response w)"
    and "rem \<le> retryInterval + snd (script w (length (calls w)))"
  shows "retryPhase expired input rem w (Some (expired (Some (AWSError e))))
           (sleep retryInterval (advance (EnableOrganizationAdminAccount input) w))"
  using assms by (simp add: retryPhase_def retryTrace_def extends_trans [OF extends_advance extends_sleep])

lemma retryTrace_Cons:
  assumes "retryTrace expired input deadline new err" "t < deadline" "retryable r"
  shows "retryTrace expired input deadline ((t, EnableOrganizationAdminAccount input, r) # new) err"
proof -
  from assms(1) have ne: "new \<noteq> []" by (simp add: retryTrace_def)
  then have l: "last ((t, EnableOrganizationAdminAccount input, r) # new) = last new"
    and b: "butlast ((t, EnableOrganizationAdminAccount input, r) # new) =
            (t, EnableOrganizationAdminAccount input, r) # butlast new"
    by simp_all
  from assms show ?thesis
    unfolding retryTrace_def l b by simp
qed

lemma retryPhase_again:
  assumes rem: "0 < rem" and r: "retryable (next_response w)"
    and w1: "w1 = sleep retryInterval (advance (EnableOrganizationAdminAccount input) w)"
    and rem1: "rem1 = rem - (retryInterval + snd (script w (length (calls w))))"
    and pos1: "0 < rem1"
    and ih: "retryPhase expired input rem1 w1 err w'"
  shows "retryPhase expired input rem w err w'"
proof -
  let ?q = "EnableOrganizationAdminAccount input"
  from ih have e1: "extends w1 w'"
    and tr: "retryTrace expired input (clock w1 + rem1) (newCalls w1 w') err"
    and to: "retryable (snd (snd (last (newCalls w1 w')))) \<longrightarrow> clock w1 + rem1 \<le> clock w'"
    and cnt: "length (newCalls w1 w') * retryInterval < rem1 + retryInterval"
    by (simp_all add: retryPhase_def)
  have e0: "extends w w1" unfolding w1
    by (rule extends_trans [OF extends_advance extends_sleep])
  have ext: "extends w w'" by (rule extends_trans [OF e0 e1])
  have nc: "newCalls w w' = (clock w, ?q, next_response w) # newCalls w1 w'"
    using newCalls_append [OF e0 e1] by (simp add: w1)
  have dl: "clock w1 + rem1 = clock w + rem"
    using pos1 by (simp add: w1 rem1)
  from tr have ne: "newCalls w1 w' \<noteq> []" by (simp add: retryTrace_def)
  have "retryTrace expired input (clock w + rem) (newCalls w w') err"
    unfolding nc using tr rem r by (intro retryTrace_Cons) (simp_all add: dl)
  moreover have "retryable (snd (snd (last (newCalls w w')))) \<longrightarrow> clock w + rem \<le> clock w'"
    using to ne by (simp add: nc dl)
  moreover have "length (newCalls w w') * retryInterval < rem + retryInterval"
  proof -
    from pos1 rem1 have "rem1 + retryInterval \<le> rem" by simp
    with cnt show ?thesis by (simp add: nc)
  qed
  ultimately show ?thesis using ext by (simp add: retryPhase_def)
qed

lemma retry_loop_phase:
  "retry_loop expired rem (createRetryFunc input) lastErr w = (err, w') \<Longrightarrow>
   (rem = 0 \<longrightarrow> w' = w \<and> err = Some (expired lastErr)) \<and>
   (0 < rem \<longrightarrow> retryPhase expired input rem w err w')"
proof (induction rem arbitrary: w lastErr rule: less_induct)
  case (less rem)
  note step = retry_step [of expired rem input lastErr w]
  show ?case
  proof (cases "rem = 0")
    case True
    with less.prems step show ?thesis by simp
  next
    case False
    then have pos: "0 < rem" by simp
    show ?thesis
    proof (cases "m_err (next_response w)")
      case None
      with less.prems pos step
      have "err = None" "w' = advance (EnableOrganizationAdminAccount input) w" by simp_all
      with pos None show ?thesis by (simp add: retryPhase_success)
    next
      case (Some e)
      show ?thesis
      proof (cases "retryable (next_response w)")
        case False
        with Some less.prems pos step
        have "err = Some (AWSError e)" "w' = advance (EnableOrganizationAdminAccount input) w"
          by simp_all
        with pos Some False show ?thesis by (simp add: retryPhase_fatal)
      next
        case True
        let ?rem1 = "rem - (retryInterval + snd (script w (length (calls w))))"
        let ?w1 = "sleep retryInterval (advance (EnableOrganizationAdminAccount input) w)"
        from True Some less.prems pos step
        have run: "retry_loop expired ?rem1 (createRetryFunc input) (Some (AWSError e)) ?w1 = (err, w')"
          by simp
        have lt: "?rem1 < rem" using pos by (simp add: retryInterval_pos)
        note ih = less.IH [OF lt run]
        show ?thesis
        proof (cases "?rem1 = 0")
          case z: True
          with ih have "w' = ?w1" "err = Some (expired (Some (AWSError e)))" by simp_all
          moreover from z have "rem \<le> retryInterval + snd (script w (length (calls w)))" by simp
          ultimately show ?thesis
            using pos retryPhase_expired [OF pos Some True, of expired input] by simp
        next
          case nz: False
          then have pos1: "0 < ?rem1" by simp
          with ih have "retryPhase expired input ?rem1 ?w1 err w'" by simp
          from retryPhase_again [OF pos True refl refl pos1 this] pos show ?thesis by simp
        qed
      qed
    qed
  qed
qed

lemma retried_model: "retried (RetryContext expired) uniqueId d w = createRetryWith expired uniqueId d w"
  by (simp add: retried_def createRetryWith_def)

lemma createRetryWith_phase:
  "retryPhase expired (createInput uniqueId d) (4 * time_Minute) w
     (fst (createRetryWith expired uniqueId d w)) (snd (createRetryWith expired uniqueId d w))"
  using retry_loop_phase [of expired "4 * time_Minute" "createInput uniqueId d" None w
      "fst (createRetryWith expired uniqueId d w)" "snd (createRetryWith expired uniqueId d w)"]
  by (simp add: createRetryWith_def RetryContext_def time_Minute_def)

lemma Read_world:
  "snd (snd (resourceOrganizationAdminAccountRead d w)) = advance ListOrganizationAdminAccounts w"
  by (simp add: resourceOrganizationAdminAccountRead_def conn_macie_eqs
      split: prod.splits option.splits)

lemma Create_unfold:
  "resourceOrganizationAdminAccountCreate retry uniqueId d w =
     (let err = fst (retried retry uniqueId d w); w1 = snd (retried retry uniqueId d w)
      in if TimedOut err
         then (case m_err (next_response w1) of
                 Some e \<Rightarrow>
                   ([ErrorDiag ''creating Macie OrganizationAdminAccount: %s'' [] (AWSError e)], d,
                    advance (EnableOrganizationAdminAccount (createInput uniqueId d)) w1)
               | None \<Rightarrow>
                   resourceOrganizationAdminAccountRead (SetId (admin_account_id d) d)
                     (advance (EnableOrganizationAdminAccount (createInput uniqueId d)) w1))
         else (case err of
                 Some e \<Rightarrow> ([ErrorDiag ''creating Macie OrganizationAdminAccount: %s'' [] e], d, w1)
               | None \<Rightarrow> resourceOrganizationAdminAccountRead (SetId (admin_account_id d) d) w1))"
  by (simp add: resourceOrganizationAdminAccountCreate_def retried_def Let_def conn_macie_eqs
      AppendErrorf_def lift_err_def split: prod.splits option.splits)

lemma isEnable_simps [simp]:
  "isEnable (t, EnableOrganizationAdminAccount i, r)"
  "\<not> isEnable (t, ListOrganizationAdminAccounts, r)"
  by (simp_all add: isEnable_def)

lemma Create_further_calls:
  "filter isEnable (newCalls (snd (retried retry uniqueId d w))
      (snd (snd (resourceOrganizationAdminAccountCreate retry uniqueId d w)))) =
     (if TimedOut (fst (retried retry uniqueId d w))
      then [(clock (snd (retried retry uniqueId d w)),
             EnableOrganizationAdminAccount (createInput uniqueId d),
             next_response (snd (retried retry uniqueId d w)))]
      else [])"
proof -
  let ?w1 = "snd (retried retry uniqueId d w)"
  let ?q = "EnableOrganizationAdminAccount (createInput uniqueId d)"
  have a: "newCalls ?w1 (advance ListOrganizationAdminAccounts (advance ?q ?w1)) =
             [(clock ?w1, ?q, next_response ?w1),
              (clock (advance ?q ?w1), ListOrganizationAdminAccounts, next_response (advance ?q ?w1))]"
    by (simp add: newCalls_def)
  show ?thesis
    by (simp add: Create_unfold Let_def Read_world a split: option.splits)
qed

lemma createRetryWith_outcome:
  "length (newCalls w (snd (createRetryWith expired uniqueId d w))) \<le> 480 \<and>
   retryTrace expired (createInput uniqueId d) (clock w + 4 * time_Minute)
     (newCalls w (snd (createRetryWith expired uniqueId d w)))
     (fst (createRetryWith expired uniqueId d w)) \<and>
   (retryable (snd (snd (last (newCalls w (snd (createRetryWith expired uniqueId d w)))))) \<longrightarrow>
      clock w + 4 * time_Minute \<le> clock (snd (createRetryWith expired uniqueId d w)))"
proof -
  let ?err = "fst (createRetryWith expired uniqueId d w)"
  let ?w1 = "snd (createRetryWith expired uniqueId d w)"
  from createRetryWith_phase [of expired uniqueId d w]
  have tr: "retryTrace expired (createInput uniqueId d) (clock w + 4 * time_Minute) (newCalls w ?w1) ?err"
    and to: "retryable (snd (snd (last (newCalls w ?w1)))) \<longrightarrow> clock w + 4 * time_Minute \<le> clock ?w1"
    and cnt: "length (newCalls w ?w1) * retryInterval < 4 * time_Minute + retryInterval"
    by (simp_all add: retryPhase_def)
  from cnt have "length (newCalls w ?w1) \<le> 480"
    by (simp add: retryInterval_def time_Minute_def time_Millisecond_def)
  with tr to show ?thesis by simp
qed

text \<open>
  C7: the retry loop of the Create handler always terminates. \<open>createRetry\<close> is a total
  function; for every script of AWS responses it makes at most 480 calls (one every
  \<open>retryInterval\<close> within four minutes) and ends in one of three ways: with success after a
  call without error, with the non-retryable error of its last call, or with a timeout
  error once the clock has reached the four-minute deadline. The same holds whatever the
  loop hands back for a used-up window (\<open>createRetryWith expired\<close>): at most 480 calls, at
  least one, and a result fixed by the response to the last call, which is retryable only
  if the clock has reached the deadline.
\<close>

theorem createRetry_terminates:
  "length (newCalls w (snd (createRetry uniqueId d w))) \<le> 480 \<and>
   (case fst (createRetry uniqueId d w) of
      None \<Rightarrow>
        newCalls w (snd (createRetry uniqueId d w)) \<noteq> [] \<and>
        m_err (snd (snd (last (newCalls w (snd (createRetry uniqueId d w)))))) = None
    | Some e \<Rightarrow>
        if TimedOut (Some e)
        then clock w + 4 * time_Minute \<le> clock (snd (createRetry uniqueId d w))
        else newCalls w (snd (createRetry uniqueId d w)) \<noteq> [] \<and>
             \<not> retryable (snd (snd (last (newCalls w (snd (createRetry uniqueId d w)))))) \<and>
             lift_err (m_err (snd (snd (last (newCalls w (snd (createRetry uniqueId d w))))))) = Some e) \<and>
   length (newCalls w (snd (createRetryWith expired uniqueId d w))) \<le> 480 \<and>
   retryTrace expired (createInput uniqueId d) (clock w + 4 * time_Minute)
     (newCalls w (snd (createRetryWith expired uniqueId d w)))
     (fst (createRetryWith expired uniqueId d w)) \<and>
   (retryable (snd (snd (last (newCalls w (snd (createRetryWith expired uniqueId d w)))))) \<longrightarrow>
      clock w + 4 * time_Minute \<le> clock (snd (createRetryWith expired uniqueId d w)))"
proof -
  let ?err = "fst (createRetry uniqueId d w)"
  let ?w1 = "snd (createRetry uniqueId d w)"
  from createRetryWith_outcome [of w timeoutError uniqueId d]
  have len: "length (newCalls w ?w1) \<le> 480"
    and tr: "retryTrace timeoutError (createInput uniqueId d) (clock w + 4 * time_Minute)
               (newCalls w ?w1) ?err"
    and to: "retryable (snd (snd (last (newCalls w ?w1)))) \<longrightarrow> clock w + 4 * time_Minute \<le> clock ?w1"
    by (simp_all add: createRetry_def)
  from tr to have "case ?err of
      None \<Rightarrow> newCalls w ?w1 \<noteq> [] \<and> m_err (snd (snd (last (newCalls w ?w1)))) = None
    | Some e \<Rightarrow>
        if TimedOut (Some e) then clock w + 4 * time_Minute \<le> clock ?w1
        else newCalls w ?w1 \<noteq> [] \<and> \<not> retryable (snd (snd (last (newCalls w ?w1)))) \<and>
             lift_err (m_err (snd (snd (last (newCalls w ?w1))))) = Some e"
    by (cases "m_err (snd (snd (last (newCalls w ?w1))))")
       (auto simp: retryTrace_def timeoutError_def lift_err_def split: if_splits)
  with len createRetryWith_outcome [of w expired uniqueId d] show ?thesis by simp
qed

lemma Create_decision:
  "(case (if TimedOut (fst (retried retry uniqueId d w))
          then lift_err (m_err (next_response (snd (retried retry uniqueId d w))))
          else fst (retried retry uniqueId d w)) of
      Some e \<Rightarrow>
        resourceOrganizationAdminAccountCreate retry uniqueId d w =
          ([ErrorDiag ''creating Macie OrganizationAdminAccount: %s'' [] e], d,
           (if TimedOut (fst (retried retry uniqueId d w))
            then advance (EnableOrganizationAdminAccount (createInput uniqueId d))
                   (snd (retried retry uniqueId d w))
            else snd (retried retry uniqueId d w)))
    | None \<Rightarrow>
        resourceOrganizationAdminAccountCreate retry uniqueId d w =
          resourceOrganizationAdminAccountRead (SetId (admin_account_id d) d)
            (if TimedOut (fst (retried retry uniqueId d w))
             then advance (EnableOrganizationAdminAccount (createInput uniqueId d))
                    (snd (retried retry uniqueId d w))
             else snd (retried retry uniqueId d w)))"
  by (simp add: Create_unfold Let_def lift_err_def split: option.splits)

lemma classification:
  "fst (createRetryFunc input w0) =
     (case m_err (next_response w0) of
        None \<Rightarrow> None
      | Some e \<Rightarrow>
          Some \<lparr>Err = AWSError e, Retryable = (ErrorCode e = Some ErrorCodeClientError)\<rparr>)"
  by (simp add: createRetryFunc_eq retryable_def lift_err_def split: option.splits)

lemmas macie_eval =
  createRetryWith_def RetryContext_def retry_step
  macieWorld_def next_response_def clientError_def listed_def retryable_def lift_err_def
  ErrorCodeClientError_def time_Minute_def retryInterval_def time_Millisecond_def
  advance_def sleep_def

lemma eval_slow:
  "createRetryWith expired u exampleAccount (macieWorld slowScript) =
     (Some (expired (Some (AWSError (GenericAPIError ''ClientError'' ''try again'')))),
      \<lparr>clock = 241000, script = slowScript,
       calls = [(0, EnableOrganizationAdminAccount (createInput u exampleAccount), clientError),
                (120500, EnableOrganizationAdminAccount (createInput u exampleAccount), clientError)]\<rparr>)"
  by (simp add: macie_eval slowScript_def)

lemma eval_quick:
  "createRetryWith expired u exampleAccount (macieWorld quickScript) =
     (None,
      \<lparr>clock = 1000, script = quickScript,
       calls = [(0, EnableOrganizationAdminAccount (createInput u exampleAccount), listed)]\<rparr>)"
  by (simp add: macie_eval quickScript_def)

lemma eval_fast3:
  "createRetryWith expired u exampleAccount (macieWorld fastScript3) =
     (None,
      \<lparr>clock = 5500, script = fastScript3,
       calls = [(0, EnableOrganizationAdminAccount (createInput u exampleAccount), clientError),
                (1500, EnableOrganizationAdminAccount (createInput u exampleAccount), clientError),
                (3000, EnableOrganizationAdminAccount (createInput u exampleAccount), clientError),
                (4500, EnableOrganizationAdminAccount (createInput u exampleAccount), listed)]\<rparr>)"
  by (simp add: macie_eval fastScript3_def)

lemma eval_slow3:
  "createRetryWith expired u exampleAccount (macieWorld slowScript3) =
     (Some (expired (Some (AWSError (GenericAPIError ''ClientError'' ''try again'')))),
      \<lparr>clock = 241000, script = slowScript3,
       calls = [(0, EnableOrganizationAdminAccount (createInput u exampleAccount), clientError),
                (120500, EnableOrganizationAdminAccount (createInput u exampleAccount), clientError)]\<rparr>)"
  by (simp add: macie_eval slowScript3_def)

text \<open>
  C1, as stated: when the retry window times out, exactly one further
  \<open>EnableOrganizationAdminAccount\<close> call is attempted. Where \<open>retry.RetryContext\<close> answers a
  used-up window with the last retryable error, the four minutes pass in \<open>slowScript\<close>, the
  handler makes no further call after the two of the retry, and reports the client error.
\<close>

theorem Create_window_used_up_without_further_call:
  "4 * time_Minute \<le>
     clock (snd (retried (RetryContext lastErrorOrTimeout) ''terraform-1'' exampleAccount
                   (macieWorld slowScript))) \<and>
   map isEnable (calls (snd (snd (resourceOrganizationAdminAccountCreate
      (RetryContext lastErrorOrTimeout) ''terraform-1'' exampleAccount (macieWorld slowScript))))) =
     [True, True] \<and>
   fst (resourceOrganizationAdminAccountCreate (RetryContext lastErrorOrTimeout) ''terraform-1''
      exampleAccount (macieWorld slowScript)) =
     [ErrorDiag ''creating Macie OrganizationAdminAccount: %s'' []
        (AWSError (GenericAPIError ''ClientError'' ''try again''))]"
  unfolding Create_unfold Let_def retried_model eval_slow
  by (simp add: lastErrorOrTimeout_def time_Minute_def isEnable_def)

text \<open>
  C1, amended: in the Create handler the \<open>EnableOrganizationAdminAccount\<close> call is retried
  through \<open>retry.RetryContext\<close> with a timeout of four minutes; an error is classified as
  retryable exactly when its code is \<open>ErrorCodeClientError\<close>, and any other error is fatal.
  Whatever \<open>retry.RetryContext\<close> does, the handler makes exactly one further
  \<open>EnableOrganizationAdminAccount\<close> call when the error handed back is a timeout error
  without last error (\<open>tfresource.TimedOut\<close>) and none otherwise, and then either reports
  the creation error or goes on to read the resource. Under the model of
  \<open>retry.RetryContext\<close>, whatever it hands back for a used-up window: the retry makes at
  least one call, every call is the same request and starts within four minutes of the
  start, every call but the last received a client error, a call without error ends the
  retry with success, any other error ends it at once with that error, and a client error
  is the last response only when the four minutes have passed.
\<close>

theorem Create_retry_policy:
  "fst (createRetryFunc (createInput uniqueId d) w0) =
     (case m_err (next_response w0) of
        None \<Rightarrow> None
      | Some e \<Rightarrow>
          Some \<lparr>Err = AWSError e, Retryable = (ErrorCode e = Some ErrorCodeClientError)\<rparr>) \<and>
   filter isEnable (newCalls (snd (retried retry uniqueId d w))
      (snd (snd (resourceOrganizationAdminAccountCreate retry uniqueId d w)))) =
     (if TimedOut (fst (retried retry uniqueId d w))
      then [(clock (snd (retried retry uniqueId d w)),
             EnableOrganizationAdminAccount (createInput uniqueId d),
             next_response (snd (retried retry uniqueId d w)))]
      else []) \<and>
   (case (if TimedOut (fst (retried retry uniqueId d w))
          then lift_err (m_err (next_response (snd (retried retry uniqueId d w))))
          else fst (retried retry uniqueId d w)) of
      Some e \<Rightarrow>
        resourceOrganizationAdminAccountCreate retry uniqueId d w =
          ([ErrorDiag ''creating Macie OrganizationAdminAccount: %s'' [] e], d,
           (if TimedOut (fst (retried retry uniqueId d w))
            then advance (EnableOrganizationAdminAccount (createInput uniqueId d))
                   (snd (retried retry uniqueId d w))
            else snd (retried retry uniqueId d w)))
    | None \<Rightarrow>
        resourceOrganizationAdminAccountCreate retry uniqueId d w =
          resourceOrganizationAdminAccountRead (SetId (admin_account_id d) d)
            (if TimedOut (fst (retried retry uniqueId d w))
             then advance (EnableOrganizationAdminAccount (createInput uniqueId d))
                    (snd (retried retry uniqueId d w))
             else snd (retried retry uniqueId d w))) \<and>
   retried (RetryContext expired) uniqueId d w = createRetryWith expired uniqueId d w \<and>
   calls (snd (createRetryWith expired uniqueId d w)) =
     calls w @ newCalls w (snd (createRetryWith expired uniqueId d w)) \<and>
   retryTrace expired (createInput uniqueId d) (clock w + 4 * time_Minute)
     (newCalls w (snd (createRetryWith expired uniqueId d w)))
     (fst (createRetryWith expired uniqueId d w)) \<and>
   (retryable (snd (snd (last (newCalls w (snd (createRetryWith expired uniqueId d w)))))) \<longrightarrow>
      clock w + 4 * time_Minute \<le> clock (snd (createRetryWith expired uniqueId d w)))"
proof (intro conjI)
  show "fst (createRetryFunc (createInput uniqueId d) w0) =
     (case m_err (next_response w0) of
        None \<Rightarrow> None
      | Some e \<Rightarrow>
          Some \<lparr>Err = AWSError e, Retryable = (ErrorCode e = Some ErrorCodeClientError)\<rparr>)"
    by (rule classification)
  show "filter isEnable (newCalls (snd (retried retry uniqueId d w))
      (snd (snd (resourceOrganizationAdminAccountCreate retry uniqueId d w)))) =
     (if TimedOut (fst (retried retry uniqueId d w))
      then [(clock (snd (retried retry uniqueId d w)),
             EnableOrganizationAdminAccount (createInput uniqueId d),
             next_response (snd (retried retry uniqueId d w)))]
      else [])"
    by (rule Create_further_calls)
  show "case (if TimedOut (fst (retried retry uniqueId d w))
          then lift_err (m_err (next_response (snd (retried retry uniqueId d w))))
          else fst (retried retry uniqueId d w)) of
      Some e \<Rightarrow>
        resourceOrganizationAdminAccountCreate retry uniqueId d w =
          ([ErrorDiag ''creating Macie OrganizationAdminAccount: %s'' [] e], d,
           (if TimedOut (fst (retried retry uniqueId d w))
            then advance (EnableOrganizationAdminAccount (createInput uniqueId d))
                   (snd (retried retry uniqueId d w))
            else snd (retried retry uniqueId d w)))
    | None \<Rightarrow>
        resourceOrganizationAdminAccountCreate retry uniqueId d w =
          resourceOrganizationAdminAccountRead (SetId (admin_account_id d) d)
            (if TimedOut (fst (retried retry uniqueId d w))
             then advance (EnableOrganizationAdminAccount (createInput uniqueId d))
                    (snd (retried retry uniqueId d w))
             else snd (retried retry uniqueId d w))"
    by (rule Create_decision)
  show "retried (RetryContext expired) uniqueId d w = createRetryWith expired uniqueId d w"
    by (rule retried_model)
  from createRetryWith_phase [of expired uniqueId d w]
  show "calls (snd (createRetryWith expired uniqueId d w)) =
     calls w @ newCalls w (snd (createRetryWith expired uniqueId d w))"
    by (simp add: retryPhase_def extends_calls)
  from createRetryWith_outcome [of w expired uniqueId d]
  show "retryTrace expired (createInput uniqueId d) (clock w + 4 * time_Minute)
     (newCalls w (snd (createRetryWith expired uniqueId d w)))
     (fst (createRetryWith expired uniqueId d w))"
    by simp
  from createRetryWith_outcome [of w expired uniqueId d]
  show "retryable (snd (snd (last (newCalls w (snd (createRetryWith expired uniqueId d w)))))) \<longrightarrow>
      clock w + 4 * time_Minute \<le> clock (snd (createRetryWith expired uniqueId d w))"
    by simp
qed

theorem Create_retry_policy_witness:
  "retryable (snd (snd (last (newCalls (macieWorld slowScript)
      (snd (createRetryWith timeoutError ''terraform-1'' exampleAccount (macieWorld slowScript))))))) \<and>
   clock (macieWorld slowScript) + 4 * time_Minute \<le>
     clock (snd (createRetryWith timeoutError ''terraform-1'' exampleAccount (macieWorld slowScript))) \<and>
   TimedOut (fst (retried (RetryContext timeoutError) ''terraform-1'' exampleAccount
      (macieWorld slowScript))) \<and>
   map isEnable (calls (snd (snd (resourceOrganizationAdminAccountCreate (RetryContext timeoutError)
      ''terraform-1'' exampleAccount (macieWorld slowScript))))) = [True, True, True, False] \<and>
   map fst (calls (snd (snd (resourceOrganizationAdminAccountCreate (RetryContext timeoutError)
      ''terraform-1'' exampleAccount (macieWorld slowScript))))) = [0, 120500, 241000, 242000] \<and>
   fst (resourceOrganizationAdminAccountCreate (RetryContext timeoutError) ''terraform-1''
      exampleAccount (macieWorld slowScript)) = []"
  using Create_retry_policy [of "''terraform-1''" exampleAccount "macieWorld slowScript"
      "RetryContext timeoutError" "macieWorld slowScript" timeoutError]
  unfolding Create_unfold Let_def retried_model eval_slow
  by (simp add: next_response_def slowScript_def listed_def lift_err_def timeoutError_def
      resourceOrganizationAdminAccountRead_def conn_macie_eqs SetId_def exampleAccount_def
      page_callback_def aws_ToString_def isEnable_def advance_def newCalls_def macieWorld_def
      retryable_def clientError_def ErrorCodeClientError_def time_Minute_def)

theorem createRetry_terminates_witness:
  "clock (macieWorld slowScript) + 4 * time_Minute \<le>
     clock (snd (createRetry ''terraform-1'' exampleAccount (macieWorld slowScript)))"
  using createRetry_terminates [of "macieWorld slowScript" "''terraform-1''" exampleAccount timeoutError]
  unfolding createRetry_def eval_slow
  by (simp add: macieWorld_def time_Minute_def)

section \<open>Two runs of the Macie Create handler\<close>

lemma eraseWorld_simps [simp]:
  "clock (eraseWorld w) = clock w" "script (eraseWorld w) = script w"
  "length (calls (eraseWorld w)) = length (calls w)"
  "next_response (eraseWorld w) = next_response w"
  by (simp_all add: eraseWorld_def next_response_def)

lemma eraseWorld_advance:
  "eraseWorld (advance q w) = advance (eraseToken q) (eraseWorld w)"
  by (simp add: eraseWorld_def advance_def next_response_def)

lemma eraseWorld_sleep: "eraseWorld (sleep t w) = sleep t (eraseWorld w)"
  by (simp add: eraseWorld_def sleep_def)

lemma retry_loop_erase:
  "retry_loop expired rem (createRetryFunc (i\<lparr>ClientToken := []\<rparr>)) lastErr (eraseWorld w) =
     (fst (retry_loop expired rem (createRetryFunc i) lastErr w),
      eraseWorld (snd (retry_loop expired rem (createRetryFunc i) lastErr w)))"
proof (induction rem arbitrary: w lastErr rule: less_induct)
  case (less rem)
  note l = retry_step [of expired rem i lastErr w]
  note r = retry_step [of expired rem "i\<lparr>ClientToken := []\<rparr>" lastErr "eraseWorld w"]
  show ?case
  proof (cases "rem = 0")
    case True
    with l r show ?thesis by simp
  next
    case False
    show ?thesis
    proof (cases "m_err (next_response w)")
      case None
      with False l r show ?thesis by (simp add: eraseWorld_advance)
    next
      case (Some e)
      show ?thesis
      proof (cases "retryable (next_response w)")
        case nr: False
        with False Some l r show ?thesis by (simp add: eraseWorld_advance)
      next
        case True
        let ?rem1 = "rem - (retryInterval + snd (script w (length (calls w))))"
        let ?w1 = "sleep retryInterval (advance (EnableOrganizationAdminAccount i) w)"
        have lt: "?rem1 < rem" using False by (simp add: retryInterval_pos)
        have e: "sleep retryInterval
                   (advance (EnableOrganizationAdminAccount (i\<lparr>ClientToken := []\<rparr>)) (eraseWorld w)) =
                 eraseWorld ?w1"
          by (simp add: eraseWorld_advance eraseWorld_sleep)
        have L: "retry_loop expired rem (createRetryFunc i) lastErr w =
                 retry_loop expired ?rem1 (createRetryFunc i) (Some (AWSError e)) ?w1"
          using False Some True l by simp
        have R: "retry_loop expired rem (createRetryFunc (i\<lparr>ClientToken := []\<rparr>)) lastErr (eraseWorld w) =
                 retry_loop expired ?rem1 (createRetryFunc (i\<lparr>ClientToken := []\<rparr>))
                   (Some (AWSError e)) (eraseWorld ?w1)"
          using False Some True r by (simp add: e)
        show ?thesis unfolding L R by (rule less.IH [OF lt])
      qed
    qed
  qed
qed

lemma createRetryWith_erase:
  "createRetryWith expired [] d (eraseWorld w) =
     (fst (createRetryWith expired uniqueId d w), eraseWorld (snd (createRetryWith expired uniqueId d w)))"
  using retry_loop_erase [of expired "4 * time_Minute" "createInput uniqueId d" None w]
  by (simp add: createRetryWith_def RetryContext_def createInput_def)

lemma Read_erase:
  "resourceOrganizationAdminAccountRead d (eraseWorld w) =
     (fst (resourceOrganizationAdminAccountRead d w),
      fst (snd (resourceOrganizationAdminAccountRead d w)),
      eraseWorld (snd (snd (resourceOrganizationAdminAccountRead d w))))"
  by (simp add: resourceOrganizationAdminAccountRead_def conn_macie_eqs eraseWorld_advance
      split: prod.splits option.splits)

lemma Create_erase:
  "resourceOrganizationAdminAccountCreate (RetryContext expired) [] d (eraseWorld w) =
     (fst (resourceOrganizationAdminAccountCreate (RetryContext expired) uniqueId d w),
      fst (snd (resourceOrganizationAdminAccountCreate (RetryContext expired) uniqueId d w)),
      eraseWorld (snd (snd (resourceOrganizationAdminAccountCreate (RetryContext expired) uniqueId d w))))"
proof -
  let ?err = "fst (createRetryWith expired uniqueId d w)"
  let ?w1 = "snd (createRetryWith expired uniqueId d w)"
  let ?q = "EnableOrganizationAdminAccount (createInput uniqueId d)"
  have a: "advance (EnableOrganizationAdminAccount (createInput [] d)) (eraseWorld ?w1) =
           eraseWorld (advance ?q ?w1)"
    by (simp add: eraseWorld_advance createInput_def)
  show ?thesis
  proof (cases "TimedOut ?err")
    case True
    then show ?thesis
      by (cases "m_err (next_response ?w1)")
         (simp_all add: Create_unfold [of "RetryContext expired" "[]" d "eraseWorld w"]
           Create_unfold [of "RetryContext expired" uniqueId d w] retried_model
           createRetryWith_erase [of expired d w uniqueId] Let_def a Read_erase)
  next
    case False
    then show ?thesis
      by (cases ?err)
         (simp_all add: Create_unfold [of "RetryContext expired" "[]" d "eraseWorld w"]
           Create_unfold [of "RetryContext expired" uniqueId d w] retried_model
           createRetryWith_erase [of expired d w uniqueId] Let_def Read_erase)
  qed
qed

lemma requests_eraseWorld: "requests (eraseWorld w) = map eraseToken (requests w)"
  by (simp add: requests_def eraseWorld_def comp_def)

text \<open>
  C6, amended: two runs of the Create handler that start from the same resource data at
  the same time and receive the same AWS responses, each after the same time, end with the
  same diagnostics and the same resource data, and issue the same requests at the same
  times up to the \<open>ClientToken\<close> of the \<open>EnableOrganizationAdminAccount\<close> input, which is the
  fresh \<open>id.UniqueId()\<close> of each run. This holds whatever \<open>retry.RetryContext\<close> hands back for
  a used-up window.
\<close>

theorem Create_same_up_to_token:
  "fst (resourceOrganizationAdminAccountCreate (RetryContext expired) u1 d w) =
     fst (resourceOrganizationAdminAccountCreate (RetryContext expired) u2 d w) \<and>
   fst (snd (resourceOrganizationAdminAccountCreate (RetryContext expired) u1 d w)) =
     fst (snd (resourceOrganizationAdminAccountCreate (RetryContext expired) u2 d w)) \<and>
   map eraseToken (requests (snd (snd (resourceOrganizationAdminAccountCreate
      (RetryContext expired) u1 d w)))) =
     map eraseToken (requests (snd (snd (resourceOrganizationAdminAccountCreate
      (RetryContext expired) u2 d w)))) \<and>
   eraseWorld (snd (snd (resourceOrganizationAdminAccountCreate (RetryContext expired) u1 d w))) =
     eraseWorld (snd (snd (resourceOrganizationAdminAccountCreate (RetryContext expired) u2 d w)))"
proof -
  let ?A = "resourceOrganizationAdminAccountCreate (RetryContext expired) u1 d w"
  let ?B = "resourceOrganizationAdminAccountCreate (RetryContext expired) u2 d w"
  have "(fst ?A, fst (snd ?A), eraseWorld (snd (snd ?A))) =
        (fst ?B, fst (snd ?B), eraseWorld (snd (snd ?B)))"
    using Create_erase [of expired d w u1] Create_erase [of expired d w u2] by simp
  then have eq: "fst ?A = fst ?B" "fst (snd ?A) = fst (snd ?B)"
    "eraseWorld (snd (snd ?A)) = eraseWorld (snd (snd ?B))"
    by simp_all
  have "map eraseToken (requests (snd (snd ?A))) = map eraseToken (requests (snd (snd ?B)))"
    unfolding requests_eraseWorld [symmetric] by (simp only: eq(3))
  with eq show ?thesis by (intro conjI)
qed

text \<open>
  C6, as stated: two runs from the same state that receive the same AWS responses issue
  identical requests and end in identical states. With the unique IDs \<open>terraform-1\<close> and
  \<open>terraform-2\<close> the requests of two runs differ; and with the same unique ID and the same
  response to each call, a run whose calls take a second each and a run whose calls take
  two minutes each end in different resource data, whichever of the two answers
  \<open>retry.RetryContext\<close> gives to a used-up window.
\<close>

theorem Create_requests_differ:
  "requests (snd (snd (resourceOrganizationAdminAccountCreate (RetryContext lastErrorOrTimeout)
      ''terraform-1'' exampleAccount (macieWorld quickScript)))) \<noteq>
   requests (snd (snd (resourceOrganizationAdminAccountCreate (RetryContext lastErrorOrTimeout)
      ''terraform-2'' exampleAccount (macieWorld quickScript)))) \<and>
   fst \<circ> fastScript3 = fst \<circ> slowScript3 \<and>
   fst (snd (resourceOrganizationAdminAccountCreate (RetryContext lastErrorOrTimeout)
      ''terraform-1'' exampleAccount (macieWorld fastScript3))) \<noteq>
   fst (snd (resourceOrganizationAdminAccountCreate (RetryContext lastErrorOrTimeout)
      ''terraform-1'' exampleAccount (macieWorld slowScript3))) \<and>
   fst (snd (resourceOrganizationAdminAccountCreate (RetryContext timeoutError)
      ''terraform-1'' exampleAccount (macieWorld fastScript3))) \<noteq>
   fst (snd (resourceOrganizationAdminAccountCreate (RetryContext timeoutError)
      ''terraform-1'' exampleAccount (macieWorld slowScript3)))"
proof (intro conjI)
  show "requests (snd (snd (resourceOrganizationAdminAccountCreate (RetryContext lastErrorOrTimeout)
      ''terraform-1'' exampleAccount (macieWorld quickScript)))) \<noteq>
   requests (snd (snd (resourceOrganizationAdminAccountCreate (RetryContext lastErrorOrTimeout)
      ''terraform-2'' exampleAccount (macieWorld quickScript))))"
    unfolding Create_unfold Let_def retried_model eval_quick
    by (simp add: Read_world requests_def createInput_def)
  show "fst \<circ> fastScript3 = fst \<circ> slowScript3"
    by (simp add: fastScript3_def slowScript3_def fun_eq_iff)
  show "fst (snd (resourceOrganizationAdminAccountCreate (RetryContext lastErrorOrTimeout)
      ''terraform-1'' exampleAccount (macieWorld fastScript3))) \<noteq>
   fst (snd (resourceOrganizationAdminAccountCreate (RetryContext lastErrorOrTimeout)
      ''terraform-1'' exampleAccount (macieWorld slowScript3)))"
    unfolding Create_unfold Let_def retried_model eval_fast3 eval_slow3
    by (simp add: lastErrorOrTimeout_def resourceOrganizationAdminAccountRead_def conn_macie_eqs
        next_response_def fastScript3_def listed_def page_callback_def aws_ToString_def
        SetId_def exampleAccount_def)
  show "fst (snd (resourceOrganizationAdminAccountCreate (RetryContext timeoutError)
      ''terraform-1'' exampleAccount (macieWorld fastScript3))) \<noteq>
   fst (snd (resourceOrganizationAdminAccountCreate (RetryContext timeoutError)
      ''terraform-1'' exampleAccount (macieWorld slowScript3)))"
    unfolding Create_unfold Let_def retried_model eval_fast3 eval_slow3
    by (simp add: timeoutError_def resourceOrganizationAdminAccountRead_def conn_macie_eqs
        next_response_def fastScript3_def slowScript3_def listed_def clientError_def
        page_callback_def aws_ToString_def SetId_def exampleAccount_def)
qed

section \<open>Waiting for the asynchronous operation\<close>

lemma status_eq:
  "statusWorkspaceSamlConfiguration i w =
     (samlStatus (next_response w), advance (DescribeWorkspaceAuthentication i) w)"
  by (simp add: statusWorkspaceSamlConfiguration_def Find_eqs samlStatus_def NotFound_def
      split: option.splits)

lemma wait_step:
  "wait_loop rem (statusWorkspaceSamlConfiguration i) target w =
     (if rem = 0 then (Some (TimeoutError None), w)
      else (case snd (samlStatus (next_response w)) of
              Some e \<Rightarrow> (Some e, advance (DescribeWorkspaceAuthentication i) w)
            | None \<Rightarrow>
                if target (fst (samlStatus (next_response w)))
                then (None, advance (DescribeWorkspaceAuthentication i) w)
                else wait_loop (rem - (retryInterval + snd (script w (length (calls w)))))
                       (statusWorkspaceSamlConfiguration i) target
                       (sleep retryInterval (advance (DescribeWorkspaceAuthentication i) w))))"
  by (subst wait_loop.simps) (simp add: status_eq split: prod.splits option.splits)

lemma waitTrace_Cons:
  "waitTrace i target polls \<Longrightarrow>
   waitTrace i target ((t, DescribeWorkspaceAuthentication i, r) # polls)"
  by (simp add: waitTrace_def)

lemma wait_loop_phase:
  "wait_loop rem (statusWorkspaceSamlConfiguration i) target w = (err, w') \<Longrightarrow>
   extends w w' \<and> (err = None \<longrightarrow> waitTrace i target (newCalls w w'))"
proof (induction rem arbitrary: w rule: less_induct)
  case (less rem)
  note step = wait_step [of rem i target w]
  let ?w1 = "advance (DescribeWorkspaceAuthentication i) w"
  show ?case
  proof (cases "rem = 0")
    case True
    with less.prems step have "err = Some (TimeoutError None)" "w' = w" by simp_all
    then show ?thesis by simp
  next
    case False
    show ?thesis
    proof (cases "snd (samlStatus (next_response w))")
      case (Some e)
      with False less.prems step have "err = Some e" "w' = ?w1" by simp_all
      then show ?thesis by simp
    next
      case None
      show ?thesis
      proof (cases "target (fst (samlStatus (next_response w)))")
        case True
        with None False less.prems step have "err = None" "w' = ?w1" by simp_all
        with None True show ?thesis by (simp add: waitTrace_def reached_def)
      next
        case nt: False
        let ?rem1 = "rem - (retryInterval + snd (script w (length (calls w))))"
        let ?w2 = "sleep retryInterval ?w1"
        from nt None False less.prems step
        have run: "wait_loop ?rem1 (statusWorkspaceSamlConfiguration i) target ?w2 = (err, w')"
          by simp
        have lt: "?rem1 < rem" using False by (simp add: retryInterval_pos)
        from less.IH [OF lt run]
        have e1: "extends ?w2 w'" and tr: "err = None \<longrightarrow> waitTrace i target (newCalls ?w2 w')"
          by simp_all
        have e0: "extends w ?w2"
          by (rule extends_trans [OF extends_advance extends_sleep])
        have nc: "newCalls w w' =
                    (clock w, DescribeWorkspaceAuthentication i, next_response w) # newCalls ?w2 w'"
          using newCalls_append [OF e0 e1] by simp
        from tr have "err = None \<longrightarrow> waitTrace i target (newCalls w w')"
          unfolding nc by (simp add: waitTrace_Cons)
        with extends_trans [OF e0 e1] show ?thesis by simp
      qed
    qed
  qed
qed

lemma conn_grafana_eqs:
  "conn_UpdateWorkspaceAuthentication i w =
     (lift_err (g_err (next_response w)), advance (UpdateWorkspaceAuthentication i) w)"
  "snd (FindWorkspaceByID a w) = advance (DescribeWorkspace a) w"
  "snd (FindSamlConfigurationByID a w) = advance (DescribeWorkspaceAuthentication a) w"
  by (simp_all add: conn_UpdateWorkspaceAuthentication_def FindWorkspaceByID_def
      FindSamlConfigurationByID_def aws_call_eq split: option.splits)

lemma Read_Return_world:
  "resourceWorkspaceSamlConfigurationRead d w = Return (err, d', w') \<Longrightarrow>
   w' = advance (DescribeWorkspaceAuthentication (Id_g d)) w"
  by (auto simp: resourceWorkspaceSamlConfigurationRead_def Find_eqs
      split: option.splits if_splits)

lemma FindWs_world:
  "FindWorkspaceByID a w = (r, w1) \<Longrightarrow> w1 = advance (DescribeWorkspace a) w"
  using conn_grafana_eqs(2) [of a w] by simp

lemma Upsert_no_workspace_id:
  "workspace_id d0 = None \<Longrightarrow> resourceWorkspaceSamlConfigurationUpsert waitCreated d0 w = Panic"
  by (simp add: resourceWorkspaceSamlConfigurationUpsert_def)

lemma Upsert_success_cases:
  assumes "workspace_id d0 = Some wid"
    and "resourceWorkspaceSamlConfigurationUpsert waitCreated d0 w = Return (None, d', w')"
  shows "w' = advance (DescribeWorkspace wid) w \<or>
         (\<exists>input w3.
            waitCreated wid (Timeout_Create (d0\<lparr>Id_g := wid\<rparr>))
              (advance (UpdateWorkspaceAuthentication input) (advance (DescribeWorkspace wid) w)) =
              (None, w3) \<and>
            resourceWorkspaceSamlConfigurationRead (d0\<lparr>Id_g := wid\<rparr>) w3 = Return (None, d', w'))"
  using assms
  by (auto simp: resourceWorkspaceSamlConfigurationUpsert_def Let_def conn_grafana_eqs(1)
      split: prod.splits option.splits if_splits
      dest!: FindWs_world; blast)

lemma Delete_success_cases:
  assumes "resourceWorkspaceSamlConfigurationDelete waitDeleted d w = Return (None, w')"
  shows "\<exists>input.
            waitDeleted (Id_g d) (Timeout_Delete d)
              (advance (UpdateWorkspaceAuthentication input)
                 (advance (DescribeWorkspace (Id_g d)) w)) = (None, w')"
  using assms
  by (auto simp: resourceWorkspaceSamlConfigurationDelete_def Let_def conn_grafana_eqs(1)
      split: prod.splits option.splits if_splits
      dest!: FindWs_world)

lemma isUpdate_simps [simp]:
  "isUpdate (t, UpdateWorkspaceAuthentication i, r)"
  "\<not> isUpdate (t, DescribeWorkspace a, r)"
  "\<not> isUpdate (t, DescribeWorkspaceAuthentication a, r)"
  by (simp_all add: isUpdate_def)

lemma newCalls_two:
  assumes "extends (advance q2 (advance q1 w)) w3"
  shows "newCalls w w3 =
           (clock w, q1, next_response w) #
           (clock (advance q1 w), q2, next_response (advance q1 w)) #
           newCalls (advance q2 (advance q1 w)) w3"
proof -
  have e: "extends w (advance q2 (advance q1 w))"
    by (rule extends_trans [OF extends_advance extends_advance])
  have "newCalls w (advance q2 (advance q1 w)) =
          [(clock w, q1, next_response w), (clock (advance q1 w), q2, next_response (advance q1 w))]"
    by (simp add: newCalls_def)
  with newCalls_append [OF e assms] show ?thesis by simp
qed

lemma Upsert_waits:
  assumes wid: "workspace_id d0 = Some wid"
    and ret: "resourceWorkspaceSamlConfigurationUpsert waitWorkspaceSamlConfigurationCreated d0 w =
           Return (None, d', w')"
    and upd: "\<exists>c \<in> set (newCalls w w'). isUpdate c"
  shows "waitTrace wid configured (butlast (afterUpdate (newCalls w w')))"
proof -
  from Upsert_success_cases [OF wid ret] show ?thesis
  proof
    assume "w' = advance (DescribeWorkspace wid) w"
    with upd show ?thesis by simp
  next
    assume "\<exists>input w3.
            waitWorkspaceSamlConfigurationCreated wid (Timeout_Create (d0\<lparr>Id_g := wid\<rparr>))
              (advance (UpdateWorkspaceAuthentication input) (advance (DescribeWorkspace wid) w)) =
              (None, w3) \<and>
            resourceWorkspaceSamlConfigurationRead (d0\<lparr>Id_g := wid\<rparr>) w3 = Return (None, d', w')"
    then obtain input w3 where
      wt: "waitWorkspaceSamlConfigurationCreated wid (Timeout_Create (d0\<lparr>Id_g := wid\<rparr>))
              (advance (UpdateWorkspaceAuthentication input) (advance (DescribeWorkspace wid) w)) =
              (None, w3)"
      and rd: "resourceWorkspaceSamlConfigurationRead (d0\<lparr>Id_g := wid\<rparr>) w3 = Return (None, d', w')"
      by blast
    from Read_Return_world [OF rd]
    have w': "w' = advance (DescribeWorkspaceAuthentication wid) w3" by simp
    let ?w2 = "advance (UpdateWorkspaceAuthentication input) (advance (DescribeWorkspace wid) w)"
    from wt have ph: "extends ?w2 w3"
      and tr: "waitTrace wid configured (newCalls ?w2 w3)"
      using wait_loop_phase [of "Timeout_Create (d0\<lparr>Id_g := wid\<rparr>)" wid
          "\<lambda>st. st = Some SamlConfigurationStatusConfigured" ?w2 None w3]
      by (simp_all add: waitWorkspaceSamlConfigurationCreated_def configured_def [abs_def])
    have e3: "extends ?w2 w'" unfolding w'
      by (rule extends_trans [OF ph extends_advance])
    have "newCalls ?w2 w' = newCalls ?w2 w3 @
            [(clock w3, DescribeWorkspaceAuthentication wid, next_response w3)]"
      using newCalls_append [OF ph, of w'] by (simp add: w')
    with newCalls_two [OF e3]
    have "afterUpdate (newCalls w w') = newCalls ?w2 w3 @
            [(clock w3, DescribeWorkspaceAuthentication wid, next_response w3)]"
      by (simp add: afterUpdate_def)
    with tr show ?thesis by simp
  qed
qed

lemma Delete_waits:
  assumes "resourceWorkspaceSamlConfigurationDelete waitWorkspaceSamlConfigurationDeleted d w =
             Return (None, w')"
  shows "waitTrace (Id_g d) gone (afterUpdate (newCalls w w'))"
proof -
  from Delete_success_cases [OF assms] obtain input where
    wt: "waitWorkspaceSamlConfigurationDeleted (Id_g d) (Timeout_Delete d)
              (advance (UpdateWorkspaceAuthentication input)
                 (advance (DescribeWorkspace (Id_g d)) w)) = (None, w')"
    by blast
  let ?w2 = "advance (UpdateWorkspaceAuthentication input) (advance (DescribeWorkspace (Id_g d)) w)"
  from wt have ph: "extends ?w2 w'" and tr: "waitTrace (Id_g d) gone (newCalls ?w2 w')"
    using wait_loop_phase [of "Timeout_Delete d" "Id_g d" "\<lambda>st. st = None" ?w2 None w']
    by (simp_all add: waitWorkspaceSamlConfigurationDeleted_def gone_def [abs_def])
  from newCalls_two [OF ph] have "afterUpdate (newCalls w w') = newCalls ?w2 w'"
    by (simp add: afterUpdate_def)
  with tr show ?thesis by simp
qed

lemma Create_slot_calls:
  "newCalls w (snd (resourceSlot_Create_with expand flatten plan w)) =
     (if HasError (fst (expand plan (emptySlotInput\<lparr>in_SlotName := Some (ValueString (Name plan))\<rparr>)))
      then []
      else [(clock w,
             CreateSlot (snd (expand plan
               (emptySlotInput\<lparr>in_SlotName := Some (ValueString (Name plan))\<rparr>))),
             next_response w)])"
  by (cases "expand plan (emptySlotInput\<lparr>in_SlotName := Some (ValueString (Name plan))\<rparr>)")
     (simp add: resourceSlot_Create_with_def conn_lex_eqs Append_def
      HasError_def AddError_def Let_def split: option.splits sum.splits prod.splits)

lemma Create_slot_state:
  "State (fst (resourceSlot_Create_with expand flatten plan w)) =
     (if HasError (fst (expand plan (emptySlotInput\<lparr>in_SlotName := Some (ValueString (Name plan))\<rparr>)))
         \<or> l_err (next_response w) \<noteq> None
      then None
      else (case l_out (next_response w) of
              None \<Rightarrow> None
            | Some out \<Rightarrow>
                (case FlattenResourceId (idPartsOf out) slotIDPartCount False of
                   Inl e \<Rightarrow> None
                 | Inr rid \<Rightarrow>
                     if HasError (fst (flatten out (plan\<lparr>ID := StringValue rid\<rparr>))) then None
                     else Some (snd (flatten out (plan\<lparr>ID := StringValue rid\<rparr>))))))"
  by (cases "expand plan (emptySlotInput\<lparr>in_SlotName := Some (ValueString (Name plan))\<rparr>)")
     (auto simp: resourceSlot_Create_with_def conn_lex_eqs Append_def idPartsOf_def
      HasError_def AddError_def Let_def lift_err_def split: option.splits sum.splits prod.splits)

section \<open>Handlers and the operations they start\<close>

lemma FindWs_eq:
  "FindWorkspaceByID a w =
     ((case g_err (next_response w) of
         Some e \<Rightarrow> if ErrCodeEquals (Some (AWSError e)) ''ResourceNotFoundException''
                   then (None, Some NotFoundError) else (None, Some (AWSError e))
       | None \<Rightarrow> (case g_workspace (next_response w) of
                    None \<Rightarrow> (None, Some EmptyResultError)
                  | Some ws \<Rightarrow> (Some ws, None))),
      advance (DescribeWorkspace a) w)"
  by (simp add: FindWorkspaceByID_def aws_call_eq split: option.splits)

lemmas grafana_eval =
  FindWs_eq Find_eqs conn_grafana_eqs(1) wait_step next_response_def advance_def sleep_def
  grafanaWorld_def workspaceResp_def okResp_def notConfiguredResp_def configuredResp_def
  fullSaml_def samlStatus_def lift_err_def NotFound_def aws_ToString_def
  SamlConfigurationStatusConfigured_def SamlConfigurationStatusNotConfigured_def
  retryInterval_def time_Millisecond_def time_Minute_def

lemma eval_upsert:
  "resourceWorkspaceSamlConfigurationUpsert waitWorkspaceSamlConfigurationCreated exampleSaml
     (grafanaWorld upsertScript) =
     Return (None, exampleSaml\<lparr>email_assertion := ''mail'', status := ''CONFIGURED''\<rparr>, upsertEnd)"
  by (simp add: resourceWorkspaceSamlConfigurationUpsert_def
      resourceWorkspaceSamlConfigurationRead_def waitWorkspaceSamlConfigurationCreated_def
      Timeout_Create_def upsertScript_def upsertEnd_def exampleSaml_def set_opt_def
      emptyAssertionAttributes_def grafana_eval Let_def)

lemma eval_delete:
  "resourceWorkspaceSamlConfigurationDelete waitWorkspaceSamlConfigurationDeleted exampleSaml
     (grafanaWorld deleteScript) =
     Return (None, deleteEnd)"
  by (simp add: resourceWorkspaceSamlConfigurationDelete_def
      waitWorkspaceSamlConfigurationDeleted_def
      Timeout_Delete_def deleteScript_def deleteEnd_def exampleSaml_def grafana_eval Let_def)

lemma upsert_polls:
  "butlast (afterUpdate (newCalls (grafanaWorld upsertScript) upsertEnd)) =
     [(500, DescribeWorkspaceAuthentication ''g-1234567890'', notConfiguredResp),
      (1100, DescribeWorkspaceAuthentication ''g-1234567890'', configuredResp)]"
  by (simp add: newCalls_def afterUpdate_def isUpdate_def grafanaWorld_def upsertEnd_def)

lemma upsert_has_update:
  "\<exists>c \<in> set (newCalls (grafanaWorld upsertScript) upsertEnd). isUpdate c"
  by (simp add: newCalls_def isUpdate_def grafanaWorld_def upsertEnd_def)

lemma delete_polls:
  "afterUpdate (newCalls (grafanaWorld deleteScript) deleteEnd) =
     [(500, DescribeWorkspaceAuthentication ''g-1234567890'', configuredResp),
      (1100, DescribeWorkspaceAuthentication ''g-1234567890'', notConfiguredResp)]"
  by (simp add: newCalls_def afterUpdate_def isUpdate_def grafanaWorld_def deleteEnd_def)

text \<open>
  C5, as stated: the Lex V2 slot Create handler waits for the created slot to reach a
  terminal state before it writes the state and returns. The handler makes the one
  \<open>CreateSlot\<close> call and writes the state; it never reads the slot's status.
\<close>

theorem Create_slot_does_not_wait:
  "map requestName (requests (snd (resourceSlot_Create exampleSlot
      (lexWorld \<lparr>l_err = None, l_out = Some (exampleOut ''BOT1234567'')\<rparr>)))) = [''CreateSlot''] \<and>
   State (fst (resourceSlot_Create exampleSlot
      (lexWorld \<lparr>l_err = None, l_out = Some (exampleOut ''BOT1234567'')\<rparr>))) \<noteq> None"
  by (simp add: resourceSlot_Create_def resourceSlot_Create_with_def conn_lex_eqs flex_Expand_def
      flex_Flatten_def Append_def
      HasError_def Let_def lexWorld_def next_response_def lift_err_def exampleOut_def
      aws_ToString_def FlattenResourceId_def slotIDPartCount_def requests_def requestName_def)

text \<open>
  C5, amended. The Grafana upsert panics on resource data without a \<open>workspace_id\<close>
  string. Otherwise, whatever the waiters do: an upsert that returns without error has
  either made the one \<open>DescribeWorkspace\<close> call and found nothing to configure, or has
  called \<open>UpdateWorkspaceAuthentication\<close> and then \<open>waitWorkspaceSamlConfigurationCreated\<close>,
  which returned without error before the resource was read; a delete that returns
  without error has called \<open>UpdateWorkspaceAuthentication\<close> and then
  \<open>waitWorkspaceSamlConfigurationDeleted\<close>, which returned without error. Under the model of
  the two waiters, the calls between the update and the return are polls of the
  workspace's authentication, at least one, the last of which shows the configuration
  configured, respectively gone. The Lex V2 slot Create handler does not poll: it makes no
  call but \<open>CreateSlot\<close>, at most once, and writes the state right after it, exactly when the
  expansion of the plan reports no error, \<open>CreateSlot\<close> returns no error and an output, the
  five ID parts of the output are accepted by \<open>FlattenResourceId\<close>, and the flattening of
  the output reports no error.
\<close>

theorem handlers_wait_for_terminal_state:
  "(workspace_id d0 = None \<longrightarrow>
      resourceWorkspaceSamlConfigurationUpsert waitCreated d0 w = Panic) \<and>
   (workspace_id d0 = Some wid \<and>
    resourceWorkspaceSamlConfigurationUpsert waitCreated d0 w = Return (None, d', w') \<longrightarrow>
      w' = advance (DescribeWorkspace wid) w \<or>
      (\<exists>input w3.
         waitCreated wid (Timeout_Create (d0\<lparr>Id_g := wid\<rparr>))
           (advance (UpdateWorkspaceAuthentication input) (advance (DescribeWorkspace wid) w)) =
           (None, w3) \<and>
         resourceWorkspaceSamlConfigurationRead (d0\<lparr>Id_g := wid\<rparr>) w3 = Return (None, d', w'))) \<and>
   (resourceWorkspaceSamlConfigurationDelete waitDeleted dd wd = Return (None, wd') \<longrightarrow>
      (\<exists>input.
         waitDeleted (Id_g dd) (Timeout_Delete dd)
           (advance (UpdateWorkspaceAuthentication input) (advance (DescribeWorkspace (Id_g dd)) wd)) =
           (None, wd'))) \<and>
   (workspace_id d0 = Some wid \<and>
    resourceWorkspaceSamlConfigurationUpsert waitWorkspaceSamlConfigurationCreated d0 w =
      Return (None, d', w') \<and>
    (\<exists>c \<in> set (newCalls w w'). isUpdate c) \<longrightarrow>
      waitTrace wid configured (butlast (afterUpdate (newCalls w w')))) \<and>
   (resourceWorkspaceSamlConfigurationDelete waitWorkspaceSamlConfigurationDeleted dd wd =
      Return (None, wd') \<longrightarrow>
      waitTrace (Id_g dd) gone (afterUpdate (newCalls wd wd'))) \<and>
   newCalls lw (snd (resourceSlot_Create_with expand flatten plan lw)) =
     (if HasError (fst (expand plan (emptySlotInput\<lparr>in_SlotName := Some (ValueString (Name plan))\<rparr>)))
      then []
      else [(clock lw,
             CreateSlot (snd (expand plan
               (emptySlotInput\<lparr>in_SlotName := Some (ValueString (Name plan))\<rparr>))),
             next_response lw)]) \<and>
   State (fst (resourceSlot_Create_with expand flatten plan lw)) =
     (if HasError (fst (expand plan (emptySlotInput\<lparr>in_SlotName := Some (ValueString (Name plan))\<rparr>)))
         \<or> l_err (next_response lw) \<noteq> None
      then None
      else (case l_out (next_response lw) of
              None \<Rightarrow> None
            | Some out \<Rightarrow>
                (case FlattenResourceId (idPartsOf out) slotIDPartCount False of
                   Inl e \<Rightarrow> None
                 | Inr rid \<Rightarrow>
                     if HasError (fst (flatten out (plan\<lparr>ID := StringValue rid\<rparr>))) then None
                     else Some (snd (flatten out (plan\<lparr>ID := StringValue rid\<rparr>))))))"
  using Upsert_no_workspace_id [of d0 waitCreated w]
    Upsert_success_cases [of d0 wid waitCreated w d' w']
    Delete_success_cases [of waitDeleted dd wd wd']
    Upsert_waits [of d0 wid w d' w'] Delete_waits [of dd wd wd']
    Create_slot_calls [of lw expand flatten plan] Create_slot_state [of expand flatten plan lw]
  by (intro conjI impI) (simp_all only: )

theorem handlers_wait_for_terminal_state_witness:
  "resourceWorkspaceSamlConfigurationUpsert waitWorkspaceSamlConfigurationCreated exampleSaml
     (grafanaWorld upsertScript) =
     Return (None, exampleSaml\<lparr>email_assertion := ''mail'', status := ''CONFIGURED''\<rparr>, upsertEnd) \<and>
   butlast (afterUpdate (newCalls (grafanaWorld upsertScript) upsertEnd)) =
     [(500, DescribeWorkspaceAuthentication ''g-1234567890'', notConfiguredResp),
      (1100, DescribeWorkspaceAuthentication ''g-1234567890'', configuredResp)] \<and>
   waitTrace ''g-1234567890'' configured
     (butlast (afterUpdate (newCalls (grafanaWorld upsertScript) upsertEnd))) \<and>
   resourceWorkspaceSamlConfigurationDelete waitWorkspaceSamlConfigurationDeleted exampleSaml
     (grafanaWorld deleteScript) = Return (None, deleteEnd) \<and>
   waitTrace ''g-1234567890'' gone (afterUpdate (newCalls (grafanaWorld deleteScript) deleteEnd)) \<and>
   resourceWorkspaceSamlConfigurationUpsert waitWorkspaceSamlConfigurationCreated
     (exampleSaml\<lparr>workspace_id := None\<rparr>) (grafanaWorld upsertScript) = Panic"
  using handlers_wait_for_terminal_state [of exampleSaml waitWorkspaceSamlConfigurationCreated
      "grafanaWorld upsertScript" "''g-1234567890''"
      "exampleSaml\<lparr>email_assertion := ''mail'', status := ''CONFIGURED''\<rparr>" upsertEnd
      waitWorkspaceSamlConfigurationDeleted exampleSaml "grafanaWorld deleteScript" deleteEnd]
    handlers_wait_for_terminal_state [of "exampleSaml\<lparr>workspace_id := None\<rparr>"
      waitWorkspaceSamlConfigurationCreated "grafanaWorld upsertScript"]
    eval_upsert eval_delete upsert_polls delete_polls upsert_has_update
  by (simp add: exampleSaml_def)

end
